theory Spec2Isabelle
  imports Complex_Main
begin

section \<open>Market data and the agent\<close>

text \<open>
  The embedding follows \<^verbatim>\<open>src/ai/agent.py\<close>. Python floats are modelled as
  \<^typ>\<open>real\<close>: the arithmetic of the source is kept operation by operation, rounding
  and the non-finite values of IEEE arithmetic (a division by zero in numpy gives
  \<^verbatim>\<open>inf\<close> or \<^verbatim>\<open>nan\<close>) are outside the model, so a statement below
  about the value of a quotient asks for a non-zero divisor. Logging and the wall-clock
  \<^verbatim>\<open>timestamp\<close> entries of the result dictionaries are left out; the fitted
  parameters the scaler keeps are not read back by the modelled code and are not part of
  the agent record.
\<close>

text \<open>One row of the market data table (a row of the pandas DataFrame).\<close>

record bar =
  timestamp :: int
  open_px :: real
  high :: real
  low :: real
  close :: real
  volume :: real

text \<open>
  The exceptions the modelled code raises:
  \<^item> \<open>ModelNotTrained\<close> is \<^verbatim>\<open>ValueError("Model not trained. Please train the model first.")\<close>;
  \<^item> \<open>NotEnoughData\<close> is \<^verbatim>\<open>ValueError("Not enough data for ... after preprocessing")\<close>;
  \<^item> \<open>ScalerError\<close> is whatever the external scaler raises while fitting.
\<close>

datatype error = ModelNotTrained | NotEnoughData | ScalerError

text \<open>
  The scaler (\<^verbatim>\<open>sklearn.preprocessing.MinMaxScaler\<close>) is an external collaborator and a
  parameter of the model: fitting computes parameters from the whole feature matrix and may
  fail, transforming maps each row with the fitted parameters. \<^verbatim>\<open>fit_transform\<close> is
  fitting followed by transforming the same matrix.
\<close>

record 'p scaler =
  fit :: "real list list \<Rightarrow> error + 'p"
  transform :: "'p \<Rightarrow> real list \<Rightarrow> real list"

definition fit_transform :: "'p scaler \<Rightarrow> real list list \<Rightarrow> error + real list list" where
  "fit_transform sc X =
     (case fit sc X of
        Inl e \<Rightarrow> Inl e
      | Inr ps \<Rightarrow> Inr (map (transform sc ps) X))"

text \<open>
  Python and numpy indexing: a negative index counts from the end. The callers below only
  use indices \<open>k\<close> with \<open>- length xs \<le> k < length xs\<close>.
\<close>

definition py_nth :: "'a list \<Rightarrow> int \<Rightarrow> 'a" where
  "py_nth xs k = (if k < 0 then xs ! nat (int (length xs) + k) else xs ! nat k)"

text \<open>\<^verbatim>\<open>data[['open', 'high', 'low', 'close', 'volume']].values\<close>: column 3 is the close.\<close>

definition features_of :: "bar list \<Rightarrow> real list list" where
  "features_of data = map (\<lambda>b. [open_px b, high b, low b, close b, volume b]) data"

text \<open>One iteration of the loop of \<^verbatim>\<open>preprocess_data\<close>: append a window and its label.\<close>

definition preprocess_step ::
  "real list list \<Rightarrow> real list list \<Rightarrow> nat \<Rightarrow> nat \<Rightarrow>
   real list list list \<times> nat list \<Rightarrow> real list list list \<times> nat list" where
  "preprocess_step features scaled_features sequence_length i acc =
     (case acc of (X, y) \<Rightarrow>
        let price_change =
              (if py_nth features (int i + int sequence_length) ! 3
                    > py_nth features (int i + int sequence_length - 1) ! 3
               then 1 else 0)
        in (X @ [take sequence_length (drop i scaled_features)], y @ [price_change]))"

text \<open>
  \<^verbatim>\<open>preprocess_data(self, data, sequence_length=60)\<close>. \<^verbatim>\<open>sort_values\<close> is modelled
  by the stable \<^const>\<open>sort_key\<close>; \<^verbatim>\<open>range(n - L)\<close> is empty when \<open>n \<le> L\<close>, as
  \<open>[0..<n - L]\<close> is with the truncating subtraction of \<^typ>\<open>nat\<close>.
\<close>

definition preprocess_data ::
  "'p scaler \<Rightarrow> bar list \<Rightarrow> nat \<Rightarrow> error + (real list list list \<times> nat list)" where
  "preprocess_data sc data0 sequence_length =
     (let data = sort_key timestamp data0;
          features = features_of data
      in case fit_transform sc features of
           Inl e \<Rightarrow> Inl e
         | Inr scaled_features \<Rightarrow>
             Inr (fold (preprocess_step features scaled_features sequence_length)
                       [0..<length scaled_features - sequence_length] ([], [])))"

text \<open>Values of the \<^verbatim>\<open>metadata\<close> dictionary (JSON-shaped).\<close>

datatype json = JNull | JBool bool | JNum real | JStr string | JList "json list"
  | JDict "(string \<times> json) list"

text \<open>
  The predictive model is external: \<^verbatim>\<open>model.predict\<close> is a function from a window to a
  probability, applied to every window of the batch (the reshaping for the dense model is
  part of that function).
\<close>

type_synonym predictor = "real list list \<Rightarrow> real"

record agent =
  agent_id :: string
  name :: string
  strategy_type :: string
  risk_level :: real
  metadata :: "(string \<times> json) list"
  model :: "predictor option"
  trained :: bool
  performance_metrics :: "(string \<times> real) list"

section \<open>Prediction and the signal\<close>

datatype action = Buy | Sell | Hold

record prediction =
  signal :: action
  confidence :: real
  raw_prediction :: real
  risk_adjusted :: real

definition predict :: "'p scaler \<Rightarrow> agent \<Rightarrow> bar list \<Rightarrow> error + prediction" where
  "predict sc ag market_data =
     (case model ag of
        None \<Rightarrow> Inl ModelNotTrained
      | Some m \<Rightarrow>
          if \<not> trained ag then Inl ModelNotTrained
          else (case preprocess_data sc market_data 60 of
                  Inl e \<Rightarrow> Inl e
                | Inr (X, _) \<Rightarrow>
                    if length X = 0 then Inl NotEnoughData
                    else
                      let prediction = map m X;
                          latest_pred = last prediction;
                          signal = (if latest_pred > 0.5 + (0.1 * risk_level ag) then Buy
                                    else if latest_pred < 0.5 - (0.1 * risk_level ag) then Sell
                                    else Hold);
                          confidence = \<bar>latest_pred - 0.5\<bar> * 2
                      in Inr \<lparr>signal = signal, confidence = confidence,
                              raw_prediction = latest_pred,
                              risk_adjusted = risk_level ag\<rparr>))"

section \<open>The position state machine\<close>

record position =
  in_position :: bool
  buy_price :: real
  quantity :: real

record execution =
  action :: action
  price :: real
  balance :: real
  position :: position
  prediction :: prediction
  profit_loss :: real

text \<open>
  \<^verbatim>\<open>execute_strategy(self, market_data, balance=1000.0, position=None)\<close>. The current
  price is the close of the last row of the table as given (not re-sorted); \<^verbatim>\<open>predict\<close>
  has succeeded before it is read, so the table has more than 60 rows. The position
  dictionary is updated in place by the source; the model returns the updated position.
  In the buy branch the local \<^verbatim>\<open>profit_loss\<close> is never assigned and the result reports 0.
\<close>

definition execute_strategy ::
  "'p scaler \<Rightarrow> agent \<Rightarrow> bar list \<Rightarrow> real \<Rightarrow> position option \<Rightarrow> error + execution" where
  "execute_strategy sc ag market_data balance0 position0 =
     (case predict sc ag market_data of
        Inl e \<Rightarrow> Inl e
      | Inr pr \<Rightarrow>
          let current_price = close (last market_data);
              pos = (case position0 of
                       None \<Rightarrow> \<lparr>in_position = False, buy_price = 0, quantity = 0\<rparr>
                     | Some p \<Rightarrow> p)
          in if signal pr = Buy \<and> \<not> in_position pos then
               let position_size = balance0 * confidence pr * risk_level ag;
                   qty = position_size / current_price
               in Inr \<lparr>action = Buy, price = current_price,
                       balance = balance0 - position_size,
                       position = \<lparr>in_position = True, buy_price = current_price,
                                   quantity = qty\<rparr>,
                       prediction = pr, profit_loss = 0\<rparr>
             else if signal pr = Sell \<and> in_position pos then
               let position_value = quantity pos * current_price;
                   pl = position_value - (quantity pos * buy_price pos)
               in Inr \<lparr>action = Sell, price = current_price,
                       balance = balance0 + position_value,
                       position = \<lparr>in_position = False, buy_price = 0, quantity = 0\<rparr>,
                       prediction = pr, profit_loss = pl\<rparr>
             else
               Inr \<lparr>action = Hold, price = current_price, balance = balance0,
                    position = pos, prediction = pr,
                    profit_loss = (if in_position pos
                                   then (current_price - buy_price pos) * quantity pos
                                   else 0)\<rparr>)"

section \<open>The backtest of \<^verbatim>\<open>evaluate\<close>\<close>

text \<open>A record of the trade ledger; only a sell carries \<^verbatim>\<open>profit_loss\<close>.\<close>

record trade =
  trade_action :: action
  trade_price :: real
  trade_timestamp :: int
  trade_profit_loss :: "real option"

text \<open>
  The classification scores come from \<^verbatim>\<open>sklearn.metrics\<close> and are parameters of the
  model; each takes the true labels and the predicted labels.
\<close>

record scores =
  accuracy_score :: "nat list \<Rightarrow> nat list \<Rightarrow> real"
  precision_score :: "nat list \<Rightarrow> nat list \<Rightarrow> real"
  recall_score :: "nat list \<Rightarrow> nat list \<Rightarrow> real"
  f1_score :: "nat list \<Rightarrow> nat list \<Rightarrow> real"

text \<open>
  One iteration of the trading loop; the state is \<open>(bal, pos, trades)\<close>, the
  balance, the position and the ledger, with \<open>pos = None\<close> before the first buy. The price is read from the table as given,
  at row \<open>i + 60\<close>, which exists because the loop runs over the \<open>length test_data - 60\<close>
  predictions. A sell only clears \<^verbatim>\<open>in_position\<close>; price and quantity stay in the
  dictionary.
\<close>

definition trading_step ::
  "nat list \<Rightarrow> bar list \<Rightarrow> nat \<Rightarrow> real \<times> position option \<times> trade list \<Rightarrow>
   real \<times> position option \<times> trade list" where
  "trading_step y_pred test_data i st =
     (case st of (bal, pos, trades) \<Rightarrow>
        let signal = (if real (y_pred ! i) > 0.5 then Buy else Sell);
            price = close (test_data ! (i + 60))
        in if signal = Buy \<and> (case pos of None \<Rightarrow> True | Some p \<Rightarrow> \<not> in_position p) then
             (0,
              Some \<lparr>in_position = True, buy_price = price, quantity = bal / price\<rparr>,
              trades @ [\<lparr>trade_action = Buy, trade_price = price,
                         trade_timestamp = timestamp (test_data ! (i + 60)),
                         trade_profit_loss = None\<rparr>])
           else if signal = Sell \<and> (case pos of None \<Rightarrow> False | Some p \<Rightarrow> in_position p) then
             (case pos of
                None \<Rightarrow> st
              | Some p \<Rightarrow>
                  (quantity p * price,
                   Some (p\<lparr>in_position := False\<rparr>),
                   trades @ [\<lparr>trade_action = Sell, trade_price = price,
                              trade_timestamp = timestamp (test_data ! (i + 60)),
                              trade_profit_loss = Some ((price - buy_price p) * quantity p)\<rparr>]))
           else st)"

definition simulate_trading ::
  "nat list \<Rightarrow> bar list \<Rightarrow> real \<times> position option \<times> trade list" where
  "simulate_trading y_pred test_data =
     fold (trading_step y_pred test_data) [0..<length y_pred] (10000, None, [])"

text \<open>\<^verbatim>\<open>t.get('action') == 'sell'\<close> and \<^verbatim>\<open>t.get('profit_loss', 0) > 0\<close>.\<close>

definition is_sell :: "trade \<Rightarrow> bool" where
  "is_sell t = (trade_action t = Sell)"

definition is_winning :: "trade \<Rightarrow> bool" where
  "is_winning t =
     (trade_action t = Sell \<and> (case trade_profit_loss t of None \<Rightarrow> 0 | Some v \<Rightarrow> v) > 0)"

text \<open>
  \<^verbatim>\<open>(y_pred_prob > 0.5).astype(int)\<close>, the predicted labels.
\<close>

definition threshold_labels :: "real list \<Rightarrow> nat list" where
  "threshold_labels y_pred_prob = map (\<lambda>p. if p > 0.5 then 1 else 0) y_pred_prob"

text \<open>
  \<^verbatim>\<open>evaluate(self, test_data)\<close> returns the new \<^verbatim>\<open>performance_metrics\<close> dictionary
  and stores it in the agent; the model returns both.
\<close>

definition evaluate ::
  "'p scaler \<Rightarrow> scores \<Rightarrow> agent \<Rightarrow> bar list \<Rightarrow> error + ((string \<times> real) list \<times> agent)" where
  "evaluate sc sk ag test_data =
     (case model ag of
        None \<Rightarrow> Inl ModelNotTrained
      | Some m \<Rightarrow>
          if \<not> trained ag then Inl ModelNotTrained
          else (case preprocess_data sc test_data 60 of
                  Inl e \<Rightarrow> Inl e
                | Inr (X, y_true) \<Rightarrow>
                    if length X = 0 then Inl NotEnoughData
                    else
                      let y_pred_prob = map m X;
                          y_pred = threshold_labels y_pred_prob;
                          accuracy = accuracy_score sk y_true y_pred;
                          precision = precision_score sk y_true y_pred;
                          recall = recall_score sk y_true y_pred;
                          f1 = f1_score sk y_true y_pred
                      in (case simulate_trading y_pred test_data of
                            (balance1, pos, trades) \<Rightarrow>
                              let balance2 =
                                    (case pos of
                                       None \<Rightarrow> balance1
                                     | Some p \<Rightarrow>
                                         if in_position p
                                         then quantity p * close (last test_data)
                                         else balance1);
                                  pl = balance2 - 10000;
                                  profit_loss_pct = (pl / 10000) * 100;
                                  winning_trades = filter is_winning trades;
                                  win_rate =
                                    (if length (filter is_sell trades) > 0
                                     then real (length winning_trades)
                                            / real (length (filter is_sell trades))
                                     else 0);
                                  pm = [(''accuracy'', accuracy),
                                        (''precision'', precision),
                                        (''recall'', recall),
                                        (''f1_score'', f1),
                                        (''profit_loss'', pl),
                                        (''profit_loss_pct'', profit_loss_pct),
                                        (''win_rate'', win_rate),
                                        (''num_trades'', real (length (filter is_sell trades))),
                                        (''final_balance'', balance2)]
                              in Inr (pm, ag\<lparr>performance_metrics := pm\<rparr>))))"

section \<open>Serialisation of the agent\<close>

text \<open>
  The dictionary \<^verbatim>\<open>from_dict\<close> reads: it looks every key up with \<^verbatim>\<open>data.get\<close>,
  so each key may be absent.
\<close>

record agent_dict =
  d_agent_id :: "string option"
  d_name :: "string option"
  d_strategy_type :: "string option"
  d_risk_level :: "real option"
  d_trained :: "bool option"
  d_performance_metrics :: "(string \<times> real) list option"
  d_metadata :: "(string \<times> json) list option"

text \<open>
  What \<^verbatim>\<open>metadata.json\<close> holds, read back with \<^verbatim>\<open>metadata.get\<close>, and the files of
  one model directory. The directory is \<^verbatim>\<open>MODEL_SAVE_PATH/agent_id\<close>, so the store is
  indexed by the agent id. The pickled scaler is not read by the modelled code and is
  left out.
\<close>

record stored_metadata =
  s_agent_id :: "string option"
  s_name :: "string option"
  s_strategy_type :: "string option"
  s_risk_level :: "real option"
  s_trained :: "bool option"
  s_performance_metrics :: "(string \<times> real) list option"
  s_created_at :: "string option"
  s_metadata :: "(string \<times> json) list option"

record model_dir =
  model_file :: "predictor option"
  metadata_file :: "stored_metadata option"

type_synonym disk = "string \<Rightarrow> model_dir"

definition empty_disk :: disk where
  "empty_disk = (\<lambda>_. \<lparr>model_file = None, metadata_file = None\<rparr>)"

text \<open>
  \<^verbatim>\<open>__init__\<close>; \<open>now\<close> is \<^verbatim>\<open>str(int(time.time()))\<close>. \<^verbatim>\<open>agent_id or ...\<close> and
  \<^verbatim>\<open>metadata or {}\<close> take the right-hand side when the left one is \<^verbatim>\<open>None\<close> or empty.
  Creating the model directory adds no file to it.
\<close>

definition init ::
  "string \<Rightarrow> string option \<Rightarrow> string \<Rightarrow> string \<Rightarrow> real \<Rightarrow> (string \<times> json) list option \<Rightarrow> agent" where
  "init now agent_id0 name0 strategy_type0 risk_level0 metadata0 =
     \<lparr>agent_id = (case agent_id0 of
                     None \<Rightarrow> now
                   | Some a \<Rightarrow> if a = [] then now else a),
      name = name0,
      strategy_type = strategy_type0,
      risk_level = risk_level0,
      metadata = (case metadata0 of
                    None \<Rightarrow> []
                  | Some md \<Rightarrow> if md = [] then [] else md),
      model = None,
      trained = False,
      performance_metrics =
        [(''accuracy'', 0), (''profit_loss'', 0), (''win_rate'', 0), (''sharpe_ratio'', 0)]\<rparr>"

text \<open>\<^verbatim>\<open>save_model\<close>: nothing is written without a model; \<open>now\<close> is the creation time.\<close>

definition save_model :: "disk \<Rightarrow> string \<Rightarrow> agent \<Rightarrow> bool \<times> disk" where
  "save_model dk now ag =
     (case model ag of
        None \<Rightarrow> (False, dk)
      | Some m \<Rightarrow>
          (True,
           dk(agent_id ag :=
                \<lparr>model_file = Some m,
                 metadata_file =
                   Some \<lparr>s_agent_id = Some (agent_id ag),
                         s_name = Some (name ag),
                         s_strategy_type = Some (strategy_type ag),
                         s_risk_level = Some (risk_level ag),
                         s_trained = Some (trained ag),
                         s_performance_metrics = Some (performance_metrics ag),
                         s_created_at = Some now,
                         s_metadata = Some (metadata ag)\<rparr>\<rparr>)))"

text \<open>
  \<^verbatim>\<open>load_model(self, agent_id=None)\<close>: without a model file nothing changes but the id;
  with one, the model is loaded and every field found in \<^verbatim>\<open>metadata.json\<close> replaces
  the agent's (\<^verbatim>\<open>trained\<close> and \<^verbatim>\<open>metadata\<close> fall back to \<^verbatim>\<open>False\<close> and \<^verbatim>\<open>{}\<close>).
\<close>

definition load_model :: "disk \<Rightarrow> agent \<Rightarrow> string option \<Rightarrow> bool \<times> agent" where
  "load_model dk ag0 agent_id0 =
     (let ag = (case agent_id0 of
                  None \<Rightarrow> ag0
                | Some a \<Rightarrow> if a = [] then ag0 else ag0\<lparr>agent_id := a\<rparr>)
      in case model_file (dk (agent_id ag)) of
           None \<Rightarrow> (False, ag)
         | Some m \<Rightarrow>
             let ag1 = ag\<lparr>model := Some m\<rparr>
             in (case metadata_file (dk (agent_id ag)) of
                   None \<Rightarrow> (True, ag1)
                 | Some md \<Rightarrow>
                     (True,
                      ag1\<lparr>name := (case s_name md of None \<Rightarrow> name ag1 | Some v \<Rightarrow> v),
                          strategy_type :=
                            (case s_strategy_type md of None \<Rightarrow> strategy_type ag1 | Some v \<Rightarrow> v),
                          risk_level :=
                            (case s_risk_level md of None \<Rightarrow> risk_level ag1 | Some v \<Rightarrow> v),
                          trained := (case s_trained md of None \<Rightarrow> False | Some v \<Rightarrow> v),
                          performance_metrics :=
                            (case s_performance_metrics md of
                               None \<Rightarrow> performance_metrics ag1
                             | Some v \<Rightarrow> v),
                          metadata := (case s_metadata md of None \<Rightarrow> [] | Some v \<Rightarrow> v)\<rparr>)))"

definition to_dict :: "agent \<Rightarrow> agent_dict" where
  "to_dict ag =
     \<lparr>d_agent_id = Some (agent_id ag),
      d_name = Some (name ag),
      d_strategy_type = Some (strategy_type ag),
      d_risk_level = Some (risk_level ag),
      d_trained = Some (trained ag),
      d_performance_metrics = Some (performance_metrics ag),
      d_metadata = Some (metadata ag)\<rparr>"

text \<open>\<^verbatim>\<open>from_dict(cls, data)\<close>; a trained agent is reloaded from its model directory.\<close>

definition from_dict :: "disk \<Rightarrow> string \<Rightarrow> agent_dict \<Rightarrow> agent" where
  "from_dict dk now data =
     (let agent0 = init now (d_agent_id data)
                     (case d_name data of None \<Rightarrow> ''Default Agent'' | Some v \<Rightarrow> v)
                     (case d_strategy_type data of None \<Rightarrow> ''lstm'' | Some v \<Rightarrow> v)
                     (case d_risk_level data of None \<Rightarrow> 0.5 | Some v \<Rightarrow> v)
                     (case d_metadata data of None \<Rightarrow> Some [] | Some v \<Rightarrow> Some v);
          agent1 = agent0\<lparr>trained := (case d_trained data of None \<Rightarrow> False | Some v \<Rightarrow> v)\<rparr>;
          agent2 = agent1\<lparr>performance_metrics :=
                            (case d_performance_metrics data of None \<Rightarrow> [] | Some v \<Rightarrow> v)\<rparr>
      in if trained agent2 then snd (load_model dk agent2 None) else agent2)"

text \<open>
  The stored metadata agrees with the agent: every value \<^const>\<open>load_model\<close> would take
  from \<^verbatim>\<open>metadata.json\<close> is the one the agent already has. This holds when no
  metadata file is stored.
\<close>

definition stored_in_sync :: "disk \<Rightarrow> agent \<Rightarrow> bool" where
  "stored_in_sync dk ag =
     (case metadata_file (dk (agent_id ag)) of
        None \<Rightarrow> True
      | Some md \<Rightarrow>
          (case s_name md of None \<Rightarrow> name ag | Some v \<Rightarrow> v) = name ag
        \<and> (case s_strategy_type md of None \<Rightarrow> strategy_type ag | Some v \<Rightarrow> v)
            = strategy_type ag
        \<and> (case s_risk_level md of None \<Rightarrow> risk_level ag | Some v \<Rightarrow> v) = risk_level ag
        \<and> (case s_trained md of None \<Rightarrow> False | Some v \<Rightarrow> v) = trained ag
        \<and> (case s_performance_metrics md of
              None \<Rightarrow> performance_metrics ag
            | Some v \<Rightarrow> v) = performance_metrics ag
        \<and> (case s_metadata md of None \<Rightarrow> [] | Some v \<Rightarrow> v) = metadata ag)"

section \<open>Auxiliary definitions and example inputs\<close>

text \<open>The scaled feature matrix of a table, once the scaler is fitted with parameters \<open>ps\<close>.\<close>

definition scaled_rows :: "'p scaler \<Rightarrow> 'p \<Rightarrow> bar list \<Rightarrow> real list list" where
  "scaled_rows sc ps data = map (transform sc ps) (features_of (sort_key timestamp data))"

text \<open>
  Inputs for the concrete instances below: a scaler that leaves every row as it is, a table
  of \<open>n\<close> rows with increasing timestamps and constant prices, and a trained agent whose
  model answers the same probability for every window, and classification scores that are
  all zero.
\<close>

definition id_scaler :: "unit scaler" where
  "id_scaler = \<lparr>fit = (\<lambda>_. Inr ()), transform = (\<lambda>_ row. row)\<rparr>"

definition flat_bars :: "nat \<Rightarrow> real \<Rightarrow> bar list" where
  "flat_bars n c =
     map (\<lambda>i. \<lparr>timestamp = int i, open_px = c, high = c, low = c, close = c, volume = 1\<rparr>) [0..<n]"

definition const_agent :: "real \<Rightarrow> real \<Rightarrow> agent" where
  "const_agent p r =
     \<lparr>agent_id = ''a1'', name = ''Default Agent'', strategy_type = ''lstm'', risk_level = r,
      metadata = [], model = Some (\<lambda>_. p), trained = True, performance_metrics = []\<rparr>"

definition zero_scores :: scores where
  "zero_scores =
     \<lparr>accuracy_score = (\<lambda>_ _. 0), precision_score = (\<lambda>_ _. 0),
      recall_score = (\<lambda>_ _. 0), f1_score = (\<lambda>_ _. 0)\<rparr>"

text \<open>
  The position \<^verbatim>\<open>execute_strategy\<close> works on: the one passed in, or the flat
  position it creates when none is passed.
\<close>

definition default_position :: position where
  "default_position = \<lparr>in_position = False, buy_price = 0, quantity = 0\<rparr>"

definition position_or_default :: "position option \<Rightarrow> position" where
  "position_or_default position0 =
     (case position0 of None \<Rightarrow> default_position | Some p \<Rightarrow> p)"

text \<open>
  The state of the trading loop: whether a position is held, and the invariant that the
  ledger reads buy, sell, buy, \<dots> and has odd length exactly while a position is held.
\<close>

definition holding :: "position option \<Rightarrow> bool" where
  "holding pos = (case pos of None \<Rightarrow> False | Some p \<Rightarrow> in_position p)"

definition alternating :: "action list \<Rightarrow> bool" where
  "alternating acts = (\<forall>j < length acts. acts ! j = (if even j then Buy else Sell))"

definition ledger_inv :: "real \<times> position option \<times> trade list \<Rightarrow> bool" where
  "ledger_inv st = (case st of (bal, pos, trades) \<Rightarrow>
      alternating (map trade_action trades) \<and> (holding pos \<longleftrightarrow> odd (length trades)))"

text \<open>
  The predicted labels \<^const>\<open>evaluate\<close> feeds to the trading loop on a table of more
  than 60 rows, and the balance it reports after the loop.
\<close>

definition backtest_labels :: "'p scaler \<Rightarrow> 'p \<Rightarrow> predictor \<Rightarrow> bar list \<Rightarrow> nat list" where
  "backtest_labels sc ps m td =
     threshold_labels
       (map m (map (\<lambda>i. take 60 (drop i (scaled_rows sc ps td))) [0..<length td - 60]))"

definition final_balance_of :: "bar list \<Rightarrow> real \<Rightarrow> position option \<Rightarrow> real" where
  "final_balance_of td bal pos =
     (case pos of
        None \<Rightarrow> bal
      | Some p \<Rightarrow> if in_position p then quantity p * close (last td) else bal)"

text \<open>
  Further example inputs: a table whose row \<open>i\<close> has all prices \<open>i + 1\<close>, a model that
  answers 0.9 on the window starting at the first row and 0.1 on every other window, an
  agent with that model, and the ledger of a three-step run.
\<close>

definition ramp_bars :: "nat \<Rightarrow> bar list" where
  "ramp_bars n =
     map (\<lambda>i. \<lparr>timestamp = int i, open_px = real i + 1, high = real i + 1,
                low = real i + 1, close = real i + 1, volume = 1\<rparr>) [0..<n]"

definition first_close_model :: predictor where
  "first_close_model w = (if hd w ! 3 = 1 then 0.9 else 0.1)"

definition ramp_agent :: agent where
  "ramp_agent = (const_agent 0.5 0.5)\<lparr>model := Some first_close_model\<rparr>"

definition ramp_ledger :: "trade list" where
  "ramp_ledger =
     [\<lparr>trade_action = Buy, trade_price = 61, trade_timestamp = 60, trade_profit_loss = None\<rparr>,
      \<lparr>trade_action = Sell, trade_price = 62, trade_timestamp = 61,
       trade_profit_loss = Some (10000 / 61)\<rparr>,
      \<lparr>trade_action = Buy, trade_price = 63, trade_timestamp = 62, trade_profit_loss = None\<rparr>]"

text \<open>
  A trained agent with nested metadata, the disk after that agent was saved with
  \<^const>\<open>save_model\<close>, and the agent after a later \<^const>\<open>evaluate\<close>, which
  replaces the performance metrics in memory and writes nothing.
\<close>

definition saved_agent :: agent where
  "saved_agent =
     \<lparr>agent_id = ''a1'', name = ''Momentum'', strategy_type = ''lstm'', risk_level = 0.5,
      metadata = [(''owner'', JStr ''desk''), (''limits'', JDict [(''max'', JNum 2.5)]),
                  (''live'', JBool False)],
      model = Some first_close_model, trained = True,
      performance_metrics =
        [(''accuracy'', 0.8), (''profit_loss'', 0), (''win_rate'', 0), (''sharpe_ratio'', 0)]\<rparr>"

definition saved_disk :: disk where
  "saved_disk = snd (save_model empty_disk ''2023-11-14T22:13:20'' saved_agent)"

definition evaluated_agent :: agent where
  "evaluated_agent =
     (case evaluate id_scaler zero_scores saved_agent (ramp_bars 62) of
        Inl e \<Rightarrow> saved_agent
      | Inr (pm, ag) \<Rightarrow> ag)"

section \<open>Windowing\<close>

lemma fold_preprocess_step:
  "fold (preprocess_step fs ss L) [0..<n] (X, y) =
     (X @ map (\<lambda>i. take L (drop i ss)) [0..<n],
      y @ map (\<lambda>i. if py_nth fs (int i + int L) ! 3 > py_nth fs (int i + int L - 1) ! 3
                      then 1 else 0) [0..<n])"
  by (induction n) (simp_all add: preprocess_step_def)

lemma length_features_of: "length (features_of d) = length d"
  by (simp add: features_of_def)

lemma features_of_close: "i < length d \<Longrightarrow> features_of d ! i ! 3 = close (d ! i)"
  by (simp add: features_of_def)

lemma py_nth_nat: "py_nth xs (int i) = xs ! i"
  by (simp add: py_nth_def)

lemma preprocess_data_Inr:
  assumes "fit sc (features_of (sort_key timestamp data)) = Inr ps"
  shows "preprocess_data sc data L =
     Inr (map (\<lambda>i. take L (drop i (map (transform sc ps) (features_of (sort_key timestamp data)))))
            [0..<length data - L],
          map (\<lambda>i. if py_nth (features_of (sort_key timestamp data)) (int i + int L) ! 3
                        > py_nth (features_of (sort_key timestamp data)) (int i + int L - 1) ! 3
                      then 1 else 0) [0..<length data - L])"
  using assms
  by (simp add: preprocess_data_def fit_transform_def fold_preprocess_step length_features_of Let_def)

lemma py_nth_add: "py_nth xs (int i + int L) = xs ! (i + L)"
  by (simp add: py_nth_def nat_add_distrib)

lemma py_nth_pred: "0 < L \<Longrightarrow> py_nth xs (int i + int L - 1) = xs ! (i + L - 1)"
proof -
  assume "0 < L"
  then have "int i + int L - 1 = int (i + L - 1)" by simp
  then show ?thesis by (simp only: py_nth_nat)
qed

lemma label_index:
  assumes "0 < L" "i < length d - L"
  shows "(if py_nth (features_of d) (int i + int L) ! 3
                        > py_nth (features_of d) (int i + int L - 1) ! 3
                      then 1 else 0) = (if close (d ! (i + L)) > close (d ! (i + L - 1)) then 1 else (0::nat))"
  using assms by (simp add: py_nth_add py_nth_pred features_of_close)

lemma preprocess_data_windows_eq:
  assumes "fit sc (features_of (sort_key timestamp data)) = Inr ps"
  shows "preprocess_data sc data L =
     Inr (map (\<lambda>i. take L (drop i (scaled_rows sc ps data))) [0..<length data - L],
          map (\<lambda>i. if py_nth (features_of (sort_key timestamp data)) (int i + int L) ! 3
                        > py_nth (features_of (sort_key timestamp data)) (int i + int L - 1) ! 3
                      then 1 else 0) [0..<length data - L])"
  using preprocess_data_Inr [OF assms] by (simp add: scaled_rows_def)

lemma predict_short:
  assumes "fit sc (features_of (sort_key timestamp data)) = Inr ps"
      and "trained ag" and "model ag = Some m" and "length data \<le> 60"
  shows "predict sc ag data = Inl NotEnoughData"
  using assms by (simp add: predict_def preprocess_data_windows_eq)

lemma predict_long:
  assumes "fit sc (features_of (sort_key timestamp data)) = Inr ps"
      and "trained ag" and "model ag = Some m" and "60 < length data"
  shows "predict sc ag data =
     Inr \<lparr>signal =
            (if m (take 60 (drop (length data - 61) (scaled_rows sc ps data)))
                  > 0.5 + (0.1 * risk_level ag) then Buy
             else if m (take 60 (drop (length data - 61) (scaled_rows sc ps data)))
                  < 0.5 - (0.1 * risk_level ag) then Sell
             else Hold),
          confidence = \<bar>m (take 60 (drop (length data - 61) (scaled_rows sc ps data))) - 0.5\<bar> * 2,
          raw_prediction = m (take 60 (drop (length data - 61) (scaled_rows sc ps data))),
          risk_adjusted = risk_level ag\<rparr>"
proof -
  let ?n = "length data - 60"
  let ?w = "\<lambda>i. take 60 (drop i (scaled_rows sc ps data))"
  have n: "?n = Suc (length data - 61)" using assms(4) by simp
  have "last (map m (map ?w [0..<?n])) = m (?w (length data - 61))"
    unfolding n by simp
  moreover have "map ?w [0..<?n] \<noteq> []" using assms(4) by simp
  ultimately show ?thesis
    using assms by (simp add: predict_def preprocess_data_windows_eq Let_def)
qed

lemma evaluate_short:
  assumes "fit sc (features_of (sort_key timestamp data)) = Inr ps"
      and "trained ag" and "model ag = Some m" and "length data \<le> 60"
  shows "evaluate sc sk ag data = Inl NotEnoughData"
  using assms by (simp add: evaluate_def preprocess_data_windows_eq)

lemma evaluate_long_ex:
  assumes "fit sc (features_of (sort_key timestamp data)) = Inr ps"
      and "trained ag" and "model ag = Some m" and "60 < length data"
  shows "\<exists>r. evaluate sc sk ag data = Inr r"
  using assms
  by (simp add: evaluate_def preprocess_data_windows_eq Let_def split: prod.splits)

text \<open>
  Claim C1. When the scaler can be fitted and the window length \<open>L\<close> is positive, a table
  of \<open>N\<close> rows gives exactly \<open>N - L\<close> windows and labels; window \<open>i\<close> is the rows
  \<open>i, \<dots>, i + L - 1\<close> of the scaled features of the table sorted by timestamp, and label
  \<open>i\<close> is 1 exactly when the unscaled close of row \<open>i + L\<close> exceeds the one of row
  \<open>i + L - 1\<close>. For a trained agent with a model, \<^const>\<open>predict\<close> and
  \<^const>\<open>evaluate\<close> (window length 60) raise the not-enough-data error when
  \<open>N \<le> 60\<close> and return a result when \<open>N > 60\<close>.
\<close>

theorem preprocess_data_windows:
  assumes "fit sc (features_of (sort_key timestamp data)) = Inr ps"
      and "0 < L"
  shows "\<exists>X y. preprocess_data sc data L = Inr (X, y)
           \<and> length X = length data - L \<and> length y = length data - L
           \<and> (\<forall>i < length data - L.
                 X ! i = take L (drop i (map (transform sc ps)
                                           (features_of (sort_key timestamp data))))
               \<and> length (X ! i) = L
               \<and> y ! i = (if close (sort_key timestamp data ! (i + L))
                               > close (sort_key timestamp data ! (i + L - 1))
                           then 1 else 0))
           \<and> (trained ag \<and> model ag \<noteq> None \<longrightarrow>
                 (length data \<le> 60 \<longrightarrow>
                    predict sc ag data = Inl NotEnoughData
                  \<and> evaluate sc sk ag data = Inl NotEnoughData)
               \<and> (60 < length data \<longrightarrow>
                    (\<exists>r. predict sc ag data = Inr r)
                  \<and> (\<exists>r. evaluate sc sk ag data = Inr r)))"
proof -
  let ?d = "sort_key timestamp data"
  let ?X = "map (\<lambda>i. take L (drop i (scaled_rows sc ps data))) [0..<length data - L]"
  let ?y = "map (\<lambda>i. if py_nth (features_of ?d) (int i + int L) ! 3
                        > py_nth (features_of ?d) (int i + int L - 1) ! 3
                      then 1 else (0::nat)) [0..<length data - L]"
  have eq: "preprocess_data sc data L = Inr (?X, ?y)"
    by (rule preprocess_data_windows_eq [OF assms(1)])
  have win: "\<forall>i < length data - L.
               ?X ! i = take L (drop i (map (transform sc ps) (features_of ?d)))
             \<and> length (?X ! i) = L
             \<and> ?y ! i = (if close (?d ! (i + L)) > close (?d ! (i + L - 1)) then 1 else 0)"
  proof (intro allI impI)
    fix i assume i: "i < length data - L"
    have len: "length ?d = length data" by simp
    have lab: "?y ! i = (if close (?d ! (i + L)) > close (?d ! (i + L - 1)) then 1 else 0)"
      using i label_index [OF assms(2), of i ?d] by (simp add: len)
    have "length (take L (drop i (scaled_rows sc ps data))) = L"
      using i by (simp add: scaled_rows_def length_features_of)
    with i lab show "?X ! i = take L (drop i (map (transform sc ps) (features_of ?d)))
             \<and> length (?X ! i) = L
             \<and> ?y ! i = (if close (?d ! (i + L)) > close (?d ! (i + L - 1)) then 1 else 0)"
      by (simp add: scaled_rows_def)
  qed
  have ops: "trained ag \<and> model ag \<noteq> None \<longrightarrow>
                 (length data \<le> 60 \<longrightarrow>
                    predict sc ag data = Inl NotEnoughData
                  \<and> evaluate sc sk ag data = Inl NotEnoughData)
               \<and> (60 < length data \<longrightarrow>
                    (\<exists>r. predict sc ag data = Inr r)
                  \<and> (\<exists>r. evaluate sc sk ag data = Inr r))"
  proof (intro impI)
    assume "trained ag \<and> model ag \<noteq> None"
    then obtain m where t: "trained ag" and m: "model ag = Some m" by auto
    show "(length data \<le> 60 \<longrightarrow>
                    predict sc ag data = Inl NotEnoughData
                  \<and> evaluate sc sk ag data = Inl NotEnoughData)
               \<and> (60 < length data \<longrightarrow>
                    (\<exists>r. predict sc ag data = Inr r)
                  \<and> (\<exists>r. evaluate sc sk ag data = Inr r))"
      using predict_short [OF assms(1) t m] evaluate_short [OF assms(1) t m]
        predict_long [OF assms(1) t m] evaluate_long_ex [OF assms(1) t m]
      by blast
  qed
  have "length ?X = length data - L" "length ?y = length data - L" by simp_all
  with eq win ops show ?thesis by blast
qed

theorem preprocess_data_windows_witness:
  "fit id_scaler (features_of (sort_key timestamp (flat_bars 3 100))) = Inr ()
   \<and> (0::nat) < 2
   \<and> (\<exists>X y. preprocess_data id_scaler (flat_bars 3 100) 2 = Inr (X, y) \<and> length X = 1)
   \<and> predict id_scaler (const_agent 0.9 0.5) (flat_bars 3 100) = Inl NotEnoughData"
proof -
  have h1: "fit id_scaler (features_of (sort_key timestamp (flat_bars 3 100))) = Inr ()"
    by (simp add: id_scaler_def)
  have h2: "(0::nat) < 2" by simp
  have len: "length (flat_bars 3 100) = 3" by (simp add: flat_bars_def)
  have ag: "trained (const_agent 0.9 0.5) \<and> model (const_agent 0.9 0.5) \<noteq> None"
    by (simp add: const_agent_def)
  from preprocess_data_windows [OF h1 h2, of "const_agent 0.9 0.5" zero_scores] ag len
  have "(\<exists>X y. preprocess_data id_scaler (flat_bars 3 100) 2 = Inr (X, y) \<and> length X = 1)
        \<and> predict id_scaler (const_agent 0.9 0.5) (flat_bars 3 100) = Inl NotEnoughData"
    by (elim exE conjE) auto
  with h1 h2 show ?thesis by blast
qed

section \<open>The signal\<close>

lemma length_flat_bars: "length (flat_bars n c) = n"
  by (simp add: flat_bars_def)

lemma close_last_flat_bars: "0 < n \<Longrightarrow> close (last (flat_bars n c)) = c"
  by (cases n) (simp_all add: flat_bars_def last_map)

lemma predict_const_agent:
  assumes "60 < n"
  shows "predict id_scaler (const_agent p r) (flat_bars n c) =
     Inr \<lparr>signal = (if p > 0.5 + (0.1 * r) then Buy
                    else if p < 0.5 - (0.1 * r) then Sell else Hold),
          confidence = \<bar>p - 0.5\<bar> * 2, raw_prediction = p, risk_adjusted = r\<rparr>"
proof -
  have f: "fit id_scaler (features_of (sort_key timestamp (flat_bars n c))) = Inr ()"
    by (simp add: id_scaler_def)
  have t: "trained (const_agent p r)" and m: "model (const_agent p r) = Some (\<lambda>_. p)"
    and r: "risk_level (const_agent p r) = r"
    by (simp_all add: const_agent_def)
  have l: "60 < length (flat_bars n c)" using assms by (simp add: length_flat_bars)
  show ?thesis using predict_long [OF f t m l] by (simp add: r)
qed

text \<open>
  Claim C2. For a trained agent on a table of more than 60 rows, with \<open>p\<close> the model's
  probability for the most recent window, \<open>0 \<le> p \<le> 1\<close>, and risk level \<open>r\<close> with
  \<open>0 \<le> r \<le> 1\<close>: \<^const>\<open>predict\<close> returns the signal buy if \<open>p > 0.5 + 0.1 r\<close>,
  sell if \<open>p < 0.5 - 0.1 r\<close> and hold otherwise, with confidence \<open>|p - 0.5| * 2\<close>, which
  lies between 0 and 1. The instance below is the boundary \<open>p = 0.55\<close> at \<open>r = 0.5\<close>,
  which gives hold.
\<close>

theorem predict_signal:
  assumes "fit sc (features_of (sort_key timestamp data)) = Inr ps"
      and "trained ag" and "model ag = Some m" and "60 < length data"
      and "p = m (take 60 (drop (length data - 61) (scaled_rows sc ps data)))"
      and "0 \<le> p" and "p \<le> 1" and "0 \<le> risk_level ag" and "risk_level ag \<le> 1"
  shows "\<exists>pr. predict sc ag data = Inr pr
           \<and> raw_prediction pr = p \<and> risk_adjusted pr = risk_level ag
           \<and> (p > 0.5 + 0.1 * risk_level ag \<longrightarrow> signal pr = Buy)
           \<and> (p < 0.5 - 0.1 * risk_level ag \<longrightarrow> signal pr = Sell)
           \<and> (\<not> p > 0.5 + 0.1 * risk_level ag \<and> \<not> p < 0.5 - 0.1 * risk_level ag
                 \<longrightarrow> signal pr = Hold)
           \<and> confidence pr = \<bar>p - 0.5\<bar> * 2
           \<and> 0 \<le> confidence pr \<and> confidence pr \<le> 1"
proof -
  let ?r = "risk_level ag"
  let ?pr = "\<lparr>signal = (if p > 0.5 + (0.1 * ?r) then Buy
                        else if p < 0.5 - (0.1 * ?r) then Sell else Hold),
              confidence = \<bar>p - 0.5\<bar> * 2, raw_prediction = p, risk_adjusted = ?r\<rparr>"
  have eq: "predict sc ag data = Inr ?pr"
    using predict_long [OF assms(1-4)] assms(5) by simp
  have excl: "p < 0.5 - 0.1 * ?r \<Longrightarrow> \<not> p > 0.5 + 0.1 * ?r"
    using assms(8) by simp
  have conf: "0 \<le> \<bar>p - 0.5\<bar> * 2" "\<bar>p - 0.5\<bar> * 2 \<le> 1"
    using assms(6,7) by (auto simp: abs_if)
  show ?thesis
    using eq excl conf by (intro exI [of _ ?pr]) auto
qed

theorem predict_signal_witness:
  "fit id_scaler (features_of (sort_key timestamp (flat_bars 61 100))) = Inr ()
   \<and> trained (const_agent 0.55 0.5)
   \<and> model (const_agent 0.55 0.5) = Some (\<lambda>_. 0.55)
   \<and> 60 < length (flat_bars 61 100)
   \<and> (0::real) \<le> 0.55 \<and> (0.55::real) \<le> 1
   \<and> 0 \<le> risk_level (const_agent 0.55 0.5) \<and> risk_level (const_agent 0.55 0.5) \<le> 1
   \<and> (\<exists>pr. predict id_scaler (const_agent 0.55 0.5) (flat_bars 61 100) = Inr pr
          \<and> raw_prediction pr = 0.55 \<and> signal pr = Hold \<and> confidence pr = 0.1)"
proof -
  have h1: "fit id_scaler (features_of (sort_key timestamp (flat_bars 61 100))) = Inr ()"
    by (simp add: id_scaler_def)
  have h2: "trained (const_agent 0.55 0.5)" by (simp add: const_agent_def)
  have h3: "model (const_agent 0.55 0.5) = Some (\<lambda>_. 0.55)" by (simp add: const_agent_def)
  have h4: "60 < length (flat_bars 61 100)" by (simp add: length_flat_bars)
  have h5: "(0.55::real) = (\<lambda>_. 0.55)
              (take 60 (drop (length (flat_bars 61 100) - 61)
                 (scaled_rows id_scaler () (flat_bars 61 100))))" by simp
  have h6: "(0::real) \<le> 0.55" and h7: "(0.55::real) \<le> 1" by simp_all
  have r: "risk_level (const_agent 0.55 0.5) = 0.5" by (simp add: const_agent_def)
  have h8: "0 \<le> risk_level (const_agent 0.55 0.5)"
    and h9: "risk_level (const_agent 0.55 0.5) \<le> 1" by (simp_all add: const_agent_def)
  from predict_signal [OF h1 h2 h3 h4 h5 h6 h7 h8 h9]
  have "\<exists>pr. predict id_scaler (const_agent 0.55 0.5) (flat_bars 61 100) = Inr pr
          \<and> raw_prediction pr = 0.55 \<and> signal pr = Hold \<and> confidence pr = 0.1"
    by (elim exE conjE) (auto simp: const_agent_def)
  with h1 h2 h3 h4 h6 h7 h8 h9 show ?thesis by blast
qed

text \<open>Just above the boundary the signal is buy; further sample points at \<open>r = 0.5\<close>.\<close>

lemma predict_boundary_above:
  "predict id_scaler (const_agent 0.551 0.5) (flat_bars 61 100) =
     Inr \<lparr>signal = Buy, confidence = 0.102, raw_prediction = 0.551, risk_adjusted = 0.5\<rparr>"
  by (simp add: predict_const_agent)

lemma predict_examples:
  "signal (projr (predict id_scaler (const_agent 0.96 0.5) (flat_bars 61 100))) = Buy"
  "signal (projr (predict id_scaler (const_agent 0.50 0.5) (flat_bars 61 100))) = Hold"
  "signal (projr (predict id_scaler (const_agent 0.04 0.5) (flat_bars 61 100))) = Sell"
  by (simp_all add: predict_const_agent)

section \<open>One step of the state machine\<close>

lemma execute_strategy_buy_eq:
  assumes "predict sc ag md = Inr pr" and "signal pr = Buy"
      and "\<not> in_position (position_or_default position0)"
  shows "execute_strategy sc ag md b position0 =
     Inr \<lparr>action = Buy, price = close (last md),
          balance = b - b * confidence pr * risk_level ag,
          position = \<lparr>in_position = True, buy_price = close (last md),
                      quantity = b * confidence pr * risk_level ag / close (last md)\<rparr>,
          prediction = pr, profit_loss = 0\<rparr>"
  using assms
  by (simp add: execute_strategy_def position_or_default_def default_position_def Let_def
           split: option.splits)

lemma execute_strategy_sell_eq:
  assumes "predict sc ag md = Inr pr" and "signal pr = Sell"
      and "position0 = Some pos" and "in_position pos"
  shows "execute_strategy sc ag md b position0 =
     Inr \<lparr>action = Sell, price = close (last md),
          balance = b + quantity pos * close (last md),
          position = \<lparr>in_position = False, buy_price = 0, quantity = 0\<rparr>,
          prediction = pr,
          profit_loss = quantity pos * close (last md) - quantity pos * buy_price pos\<rparr>"
  using assms by (simp add: execute_strategy_def Let_def)

lemma execute_strategy_hold_eq:
  assumes "predict sc ag md = Inr pr"
      and "signal pr = Hold
           \<or> (signal pr = Sell \<and> \<not> in_position (position_or_default position0))
           \<or> (signal pr = Buy \<and> in_position (position_or_default position0))"
  shows "execute_strategy sc ag md b position0 =
     Inr \<lparr>action = Hold, price = close (last md), balance = b,
          position = position_or_default position0, prediction = pr,
          profit_loss =
            (if in_position (position_or_default position0)
             then (close (last md) - buy_price (position_or_default position0))
                    * quantity (position_or_default position0)
             else 0)\<rparr>"
  using assms
  by (auto simp add: execute_strategy_def position_or_default_def default_position_def Let_def
           split: option.splits)

lemma execute_strategy_const_agent:
  assumes "60 < n"
  shows "execute_strategy id_scaler (const_agent p r) (flat_bars n c) b position0 =
      (let pr = \<lparr>signal = (if p > 0.5 + (0.1 * r) then Buy
                    else if p < 0.5 - (0.1 * r) then Sell else Hold),
          confidence = \<bar>p - 0.5\<bar> * 2, raw_prediction = p, risk_adjusted = r\<rparr>;
           pos = position_or_default position0
       in if signal pr = Buy \<and> \<not> in_position pos then
             Inr \<lparr>action = Buy, price = c, balance = b - b * confidence pr * r,
                 position = \<lparr>in_position = True, buy_price = c,
                      quantity = b * confidence pr * r / c\<rparr>,
                 prediction = pr, profit_loss = 0\<rparr>
          else if signal pr = Sell \<and> in_position pos then
             Inr \<lparr>action = Sell, price = c, balance = b + quantity pos * c,
                  position = \<lparr>in_position = False, buy_price = 0, quantity = 0\<rparr>,
                  prediction = pr, profit_loss = quantity pos * c - quantity pos * buy_price pos\<rparr>
          else Inr \<lparr>action = Hold, price = c, balance = b, position = pos, prediction = pr,
                  profit_loss = (if in_position pos then (c - buy_price pos) * quantity pos else 0)\<rparr>)"
proof -
  have c: "close (last (flat_bars n c)) = c" using assms by (simp add: close_last_flat_bars)
  have r: "risk_level (const_agent p r) = r" by (simp add: const_agent_def)
  show ?thesis
    unfolding execute_strategy_def predict_const_agent [OF assms]
    by (simp add: c r Let_def position_or_default_def default_position_def split: option.splits)
qed

text \<open>
  Claim C3, as stated, does not hold: the step has no price check. A buy from the flat
  state at the price \<open>-100\<close> succeeds and divides by that price.
\<close>

theorem execute_strategy_nonpositive_price_counterexample:
  "execute_strategy id_scaler (const_agent 0.96 0.5) (flat_bars 61 (-100)) 1000 None =
     Inr \<lparr>action = Buy, price = -100, balance = 540,
          position = \<lparr>in_position = True, buy_price = -100, quantity = -4.6\<rparr>,
          prediction = \<lparr>signal = Buy, confidence = 0.92, raw_prediction = 0.96,
                        risk_adjusted = 0.5\<rparr>,
          profit_loss = 0\<rparr>"
  by (simp add: execute_strategy_const_agent position_or_default_def default_position_def)

text \<open>
  Claim C3, amended. A buy signal acted on from the flat state at a negative current price
  does not fail: the step reports a buy, opens the position at that price with
  quantity \<open>balance * confidence * risk_level / price\<close> and takes the position size off
  the balance.
\<close>

theorem execute_strategy_buy_negative_price:
  assumes "predict sc ag md = Inr pr" and "signal pr = Buy"
      and "\<not> in_position (position_or_default position0)"
      and "close (last md) < 0"
  shows "\<exists>ex. execute_strategy sc ag md b position0 = Inr ex
           \<and> action ex = Buy
           \<and> in_position (position ex)
           \<and> buy_price (position ex) = close (last md)
           \<and> quantity (position ex) = b * confidence pr * risk_level ag / close (last md)
           \<and> balance ex = b - b * confidence pr * risk_level ag"
  using execute_strategy_buy_eq [OF assms(1-3), of b] by simp

theorem execute_strategy_buy_negative_price_witness:
  "predict id_scaler (const_agent 0.96 0.5) (flat_bars 61 (-100)) =
     Inr \<lparr>signal = Buy, confidence = 0.92, raw_prediction = 0.96, risk_adjusted = 0.5\<rparr>
   \<and> \<not> in_position (position_or_default None)
   \<and> close (last (flat_bars 61 (-100))) < 0
   \<and> (\<exists>ex. execute_strategy id_scaler (const_agent 0.96 0.5) (flat_bars 61 (-100)) 1000 None
               = Inr ex
          \<and> action ex = Buy \<and> in_position (position ex)
          \<and> quantity (position ex) = -4.6 \<and> balance ex = 540)"
proof -
  let ?pr = "\<lparr>signal = Buy, confidence = 0.92, raw_prediction = 0.96, risk_adjusted = 0.5\<rparr>"
  have h1: "predict id_scaler (const_agent 0.96 0.5) (flat_bars 61 (-100)) = Inr ?pr"
    by (simp add: predict_const_agent)
  have h2: "signal ?pr = Buy" by simp
  have h3: "\<not> in_position (position_or_default None)"
    by (simp add: position_or_default_def default_position_def)
  have h4: "close (last (flat_bars 61 (-100))) < 0" by (simp add: close_last_flat_bars)
  from execute_strategy_buy_negative_price [OF h1 h2 h3 h4, of 1000]
  have "\<exists>ex. execute_strategy id_scaler (const_agent 0.96 0.5) (flat_bars 61 (-100)) 1000 None
               = Inr ex
          \<and> action ex = Buy \<and> in_position (position ex)
          \<and> quantity (position ex) = -4.6 \<and> balance ex = 540"
    by (elim exE conjE) (auto simp: close_last_flat_bars const_agent_def)
  with h1 h3 h4 show ?thesis by blast
qed

text \<open>
  Claim C4. From the flat state with balance \<open>b\<close>, a buy signal at a price \<open>p > 0\<close> with
  confidence \<open>c\<close> and risk level \<open>r\<close> gives the long state with quantity
  \<open>b * c * r / p\<close>, entry price \<open>p\<close> and balance \<open>b - b * c * r\<close>. The instance below
  is \<open>b = 1000\<close>, \<open>c = 1\<close>, \<open>r = 1\<close>, \<open>p = 100\<close>: quantity 10 and balance 0.
\<close>

theorem execute_strategy_buy:
  assumes "predict sc ag md = Inr pr" and "signal pr = Buy"
      and "\<not> in_position (position_or_default position0)"
      and "0 < close (last md)"
  shows "execute_strategy sc ag md b position0 =
     Inr \<lparr>action = Buy, price = close (last md),
          balance = b - b * confidence pr * risk_level ag,
          position = \<lparr>in_position = True, buy_price = close (last md),
                      quantity = b * confidence pr * risk_level ag / close (last md)\<rparr>,
          prediction = pr, profit_loss = 0\<rparr>"
  by (rule execute_strategy_buy_eq [OF assms(1-3)])

theorem execute_strategy_buy_witness:
  "predict id_scaler (const_agent 1 1) (flat_bars 61 100) =
     Inr \<lparr>signal = Buy, confidence = 1, raw_prediction = 1, risk_adjusted = 1\<rparr>
   \<and> \<not> in_position (position_or_default None)
   \<and> 0 < close (last (flat_bars 61 100))
   \<and> execute_strategy id_scaler (const_agent 1 1) (flat_bars 61 100) 1000 None =
       Inr \<lparr>action = Buy, price = 100, balance = 0,
            position = \<lparr>in_position = True, buy_price = 100, quantity = 10\<rparr>,
            prediction = \<lparr>signal = Buy, confidence = 1, raw_prediction = 1,
                          risk_adjusted = 1\<rparr>,
            profit_loss = 0\<rparr>"
proof -
  let ?pr = "\<lparr>signal = Buy, confidence = 1, raw_prediction = 1, risk_adjusted = 1\<rparr>"
  have h1: "predict id_scaler (const_agent 1 1) (flat_bars 61 100) = Inr ?pr"
    by (simp add: predict_const_agent)
  have h2: "signal ?pr = Buy" by simp
  have h3: "\<not> in_position (position_or_default None)"
    by (simp add: position_or_default_def default_position_def)
  have h4: "0 < close (last (flat_bars 61 100))" by (simp add: close_last_flat_bars)
  from execute_strategy_buy [OF h1 h2 h3 h4, of 1000]
  have "execute_strategy id_scaler (const_agent 1 1) (flat_bars 61 100) 1000 None =
       Inr \<lparr>action = Buy, price = 100, balance = 0,
            position = \<lparr>in_position = True, buy_price = 100, quantity = 10\<rparr>,
            prediction = ?pr, profit_loss = 0\<rparr>"
    by (simp add: close_last_flat_bars const_agent_def)
  with h1 h3 h4 show ?thesis by blast
qed

text \<open>
  Claim C5. From the long state with quantity \<open>q\<close>, entry price \<open>e\<close> and balance \<open>b\<close>,
  a sell signal at price \<open>p\<close> gives the flat state with profit or loss
  \<open>q * p - q * e\<close>, balance \<open>b + q * p\<close>, and quantity and entry price reset to 0. The
  instance below is \<open>q = 10\<close>, \<open>e = 100\<close>, \<open>b = 0\<close>, \<open>p = 120\<close>: profit 200 and
  balance 1200.
\<close>

theorem execute_strategy_sell:
  assumes "predict sc ag md = Inr pr" and "signal pr = Sell"
      and "position0 = Some pos" and "in_position pos"
  shows "execute_strategy sc ag md b position0 =
     Inr \<lparr>action = Sell, price = close (last md),
          balance = b + quantity pos * close (last md),
          position = \<lparr>in_position = False, buy_price = 0, quantity = 0\<rparr>,
          prediction = pr,
          profit_loss = quantity pos * close (last md) - quantity pos * buy_price pos\<rparr>"
  by (rule execute_strategy_sell_eq [OF assms])

theorem execute_strategy_sell_witness:
  "predict id_scaler (const_agent 0 1) (flat_bars 61 120) =
     Inr \<lparr>signal = Sell, confidence = 1, raw_prediction = 0, risk_adjusted = 1\<rparr>
   \<and> in_position \<lparr>in_position = True, buy_price = 100, quantity = 10\<rparr>
   \<and> execute_strategy id_scaler (const_agent 0 1) (flat_bars 61 120) 0
        (Some \<lparr>in_position = True, buy_price = 100, quantity = 10\<rparr>) =
       Inr \<lparr>action = Sell, price = 120, balance = 1200,
            position = \<lparr>in_position = False, buy_price = 0, quantity = 0\<rparr>,
            prediction = \<lparr>signal = Sell, confidence = 1, raw_prediction = 0,
                          risk_adjusted = 1\<rparr>,
            profit_loss = 200\<rparr>"
proof -
  let ?pr = "\<lparr>signal = Sell, confidence = 1, raw_prediction = 0, risk_adjusted = 1\<rparr>"
  let ?pos = "\<lparr>in_position = True, buy_price = 100, quantity = 10\<rparr>"
  have h1: "predict id_scaler (const_agent 0 1) (flat_bars 61 120) = Inr ?pr"
    by (simp add: predict_const_agent)
  have h2: "signal ?pr = Sell" by simp
  have h3: "Some ?pos = Some ?pos" by simp
  have h4: "in_position ?pos" by simp
  from execute_strategy_sell [OF h1 h2 h3 h4, of 0]
  have "execute_strategy id_scaler (const_agent 0 1) (flat_bars 61 120) 0 (Some ?pos) =
       Inr \<lparr>action = Sell, price = 120, balance = 1200,
            position = \<lparr>in_position = False, buy_price = 0, quantity = 0\<rparr>,
            prediction = ?pr, profit_loss = 200\<rparr>"
    by (simp add: close_last_flat_bars)
  with h1 h4 show ?thesis by blast
qed

text \<open>
  Claim C6. When the signal is hold, or sell in the flat state, or buy in the long state,
  the step reports hold and returns the balance and the position unchanged; it reports
  the unrealised profit or loss \<open>(price - entry price) * quantity\<close> in the long state
  and 0 in the flat state.
\<close>

theorem execute_strategy_hold:
  assumes "predict sc ag md = Inr pr"
      and "signal pr = Hold
           \<or> (signal pr = Sell \<and> \<not> in_position (position_or_default position0))
           \<or> (signal pr = Buy \<and> in_position (position_or_default position0))"
  shows "execute_strategy sc ag md b position0 =
     Inr \<lparr>action = Hold, price = close (last md), balance = b,
          position = position_or_default position0, prediction = pr,
          profit_loss =
            (if in_position (position_or_default position0)
             then (close (last md) - buy_price (position_or_default position0))
                    * quantity (position_or_default position0)
             else 0)\<rparr>"
  by (rule execute_strategy_hold_eq [OF assms])

theorem execute_strategy_hold_witness:
  "predict id_scaler (const_agent 0.96 0.5) (flat_bars 61 120) =
     Inr \<lparr>signal = Buy, confidence = 0.92, raw_prediction = 0.96, risk_adjusted = 0.5\<rparr>
   \<and> in_position (position_or_default
                     (Some \<lparr>in_position = True, buy_price = 100, quantity = 10\<rparr>))
   \<and> execute_strategy id_scaler (const_agent 0.96 0.5) (flat_bars 61 120) 50
        (Some \<lparr>in_position = True, buy_price = 100, quantity = 10\<rparr>) =
       Inr \<lparr>action = Hold, price = 120, balance = 50,
            position = \<lparr>in_position = True, buy_price = 100, quantity = 10\<rparr>,
            prediction = \<lparr>signal = Buy, confidence = 0.92, raw_prediction = 0.96,
                          risk_adjusted = 0.5\<rparr>,
            profit_loss = 200\<rparr>"
proof -
  let ?pr = "\<lparr>signal = Buy, confidence = 0.92, raw_prediction = 0.96, risk_adjusted = 0.5\<rparr>"
  let ?pos = "\<lparr>in_position = True, buy_price = 100, quantity = 10\<rparr>"
  have h1: "predict id_scaler (const_agent 0.96 0.5) (flat_bars 61 120) = Inr ?pr"
    by (simp add: predict_const_agent)
  have h3: "in_position (position_or_default (Some ?pos))"
    by (simp add: position_or_default_def)
  have h2: "signal ?pr = Hold
           \<or> (signal ?pr = Sell \<and> \<not> in_position (position_or_default (Some ?pos)))
           \<or> (signal ?pr = Buy \<and> in_position (position_or_default (Some ?pos)))"
    using h3 by simp
  from execute_strategy_hold [OF h1 h2, of 50]
  have "execute_strategy id_scaler (const_agent 0.96 0.5) (flat_bars 61 120) 50 (Some ?pos) =
       Inr \<lparr>action = Hold, price = 120, balance = 50, position = ?pos,
            prediction = ?pr, profit_loss = 200\<rparr>"
    by (simp add: close_last_flat_bars position_or_default_def)
  with h1 h3 show ?thesis by blast
qed

section \<open>The trading loop of the backtest\<close>

lemma alternating_snoc:
  "alternating acts \<Longrightarrow> a = (if even (length acts) then Buy else Sell) \<Longrightarrow> alternating (acts @ [a])"
  by (auto simp: alternating_def nth_append less_Suc_eq)

lemma trading_step_inv:
  assumes "ledger_inv st"
  shows "ledger_inv (trading_step y_pred td i st)"
proof -
  obtain bal pos trades where st: "st = (bal, pos, trades)" by (cases st)
  show ?thesis
    using assms unfolding st
    by (auto simp: ledger_inv_def trading_step_def holding_def Let_def alternating_snoc
             split: option.splits)
qed

lemma fold_trading_step_inv:
  "ledger_inv st \<Longrightarrow> ledger_inv (fold (trading_step y_pred td) is st)"
  by (induction "is" arbitrary: st) (simp_all add: trading_step_inv)

lemma simulate_trading_inv: "ledger_inv (simulate_trading y_pred td)"
  unfolding simulate_trading_def
  by (rule fold_trading_step_inv) (simp add: ledger_inv_def alternating_def holding_def)

lemma alternating_count:
  "alternating acts \<Longrightarrow>
     length (filter (\<lambda>a. a = Buy) acts) = (length acts + 1) div 2
   \<and> length (filter (\<lambda>a. a = Sell) acts) = length acts div 2"
proof (induction acts rule: rev_induct)
  case Nil
  then show ?case by simp
next
  case (snoc a acts)
  have alt: "alternating acts"
    using snoc.prems by (auto simp: alternating_def nth_append split: if_splits)
  have a: "a = (if even (length acts) then Buy else Sell)"
    using snoc.prems by (auto simp: alternating_def nth_append dest: spec [of _ "length acts"])
  show ?case using snoc.IH [OF alt] a by (auto elim: oddE)
qed

lemma evaluate_long:
  assumes "fit sc (features_of (sort_key timestamp td)) = Inr ps"
      and "trained ag" and "model ag = Some m" and "60 < length td"
      and "simulate_trading (backtest_labels sc ps m td) td = (bal, pos, trades)"
  shows "\<exists>acc prec rec f1.
     evaluate sc sk ag td =
       Inr ([(''accuracy'', acc), (''precision'', prec), (''recall'', rec), (''f1_score'', f1),
             (''profit_loss'', final_balance_of td bal pos - 10000),
             (''profit_loss_pct'', ((final_balance_of td bal pos - 10000) / 10000) * 100),
             (''win_rate'',
                if length (filter is_sell trades) > 0
                then real (length (filter is_winning trades))
                       / real (length (filter is_sell trades))
                else 0),
             (''num_trades'', real (length (filter is_sell trades))),
             (''final_balance'', final_balance_of td bal pos)],
            ag\<lparr>performance_metrics :=
               [(''accuracy'', acc), (''precision'', prec), (''recall'', rec), (''f1_score'', f1),
                (''profit_loss'', final_balance_of td bal pos - 10000),
                (''profit_loss_pct'', ((final_balance_of td bal pos - 10000) / 10000) * 100),
                (''win_rate'',
                   if length (filter is_sell trades) > 0
                   then real (length (filter is_winning trades))
                          / real (length (filter is_sell trades))
                   else 0),
                (''num_trades'', real (length (filter is_sell trades))),
                (''final_balance'', final_balance_of td bal pos)]\<rparr>)"
proof -
  have ne: "length td - 60 \<noteq> 0" using assms(4) by simp
  show ?thesis
    using assms(2,3,5) ne
    by (simp add: evaluate_def preprocess_data_windows_eq [OF assms(1)] Let_def
          backtest_labels_def final_balance_of_def)
qed

lemma length_ramp_bars: "length (ramp_bars n) = n"
  by (simp add: ramp_bars_def)

lemma nth_ramp_bars:
  "i < n \<Longrightarrow> ramp_bars n ! i =
     \<lparr>timestamp = int i, open_px = real i + 1, high = real i + 1,
      low = real i + 1, close = real i + 1, volume = 1\<rparr>"
  by (simp add: ramp_bars_def)

lemma close_last_ramp_bars: "0 < n \<Longrightarrow> close (last (ramp_bars n)) = real n"
  by (cases n) (simp_all add: ramp_bars_def last_map)

lemma sort_ramp_bars: "sort_key timestamp (ramp_bars n) = ramp_bars n"
proof (rule sort_key_id_if_sorted)
  have "map timestamp (ramp_bars n) = map int [0..<n]"
    by (simp add: ramp_bars_def comp_def)
  then show "sorted (map timestamp (ramp_bars n))"
    by (simp add: sorted_iff_nth_mono)
qed

lemma sort_flat_bars: "sort_key timestamp (flat_bars n c) = flat_bars n c"
proof (rule sort_key_id_if_sorted)
  have "map timestamp (flat_bars n c) = map int [0..<n]"
    by (simp add: flat_bars_def comp_def)
  then show "sorted (map timestamp (flat_bars n c))"
    by (simp add: sorted_iff_nth_mono)
qed

lemma upt_2: "[0..<2] = [0, Suc 0]"
  by (simp add: numeral_2_eq_2)

lemma upt_3: "[0..<3] = [0, Suc 0, 2]"
  by (simp add: numeral_3_eq_3 numeral_2_eq_2)

lemma window_first_close:
  assumes "i < n"
  shows "hd (take 60 (drop i (scaled_rows id_scaler () (ramp_bars n)))) ! 3 = real i + 1"
proof -
  have "scaled_rows id_scaler () (ramp_bars n) = features_of (ramp_bars n)"
    by (simp add: scaled_rows_def id_scaler_def sort_ramp_bars)
  moreover have "hd (take 60 (drop i (features_of (ramp_bars n)))) = features_of (ramp_bars n) ! i"
    using assms by (simp add: hd_drop_conv_nth length_features_of length_ramp_bars)
  ultimately show ?thesis
    using assms by (simp add: features_of_close length_ramp_bars nth_ramp_bars)
qed

lemma first_close_model_window:
  assumes "i < n"
  shows "first_close_model (take 60 (drop i (scaled_rows id_scaler () (ramp_bars n))))
           = (if i = 0 then 0.9 else 0.1)"
  unfolding first_close_model_def window_first_close [OF assms] by simp

lemma backtest_labels_ramp:
  "backtest_labels id_scaler () first_close_model (ramp_bars 62) = [1, 0]"
proof -
  have "map first_close_model
          (map (\<lambda>i. take 60 (drop i (scaled_rows id_scaler () (ramp_bars 62))))
             [0..<length (ramp_bars 62) - 60])
        = map (\<lambda>i. if i = 0 then 0.9 else 0.1) [0..<length (ramp_bars 62) - 60]"
    unfolding map_map
    by (rule map_cong) (simp_all add: length_ramp_bars first_close_model_window)
  then show ?thesis
    by (simp add: backtest_labels_def threshold_labels_def length_ramp_bars upt_2)
qed

lemma backtest_labels_const:
  "backtest_labels id_scaler () (\<lambda>_. 0.9) (ramp_bars 62) = [1, 1]"
  by (simp add: backtest_labels_def threshold_labels_def length_ramp_bars upt_2)

lemma simulate_ramp_buy_sell:
  "simulate_trading [1, 0] (ramp_bars 62) =
     (620000 / 61,
      Some \<lparr>in_position = False, buy_price = 61, quantity = 10000 / 61\<rparr>,
      [\<lparr>trade_action = Buy, trade_price = 61, trade_timestamp = 60, trade_profit_loss = None\<rparr>,
       \<lparr>trade_action = Sell, trade_price = 62, trade_timestamp = 61,
        trade_profit_loss = Some (10000 / 61)\<rparr>])"
  by (simp add: simulate_trading_def upt_2 trading_step_def nth_ramp_bars)

lemma simulate_ramp_buy_hold:
  "simulate_trading [1, 1] (ramp_bars 62) =
     (0,
      Some \<lparr>in_position = True, buy_price = 61, quantity = 10000 / 61\<rparr>,
      [\<lparr>trade_action = Buy, trade_price = 61, trade_timestamp = 60, trade_profit_loss = None\<rparr>])"
  by (simp add: simulate_trading_def upt_2 trading_step_def nth_ramp_bars)

lemma simulate_ramp_three:
  "simulate_trading [1, 0, 1] (ramp_bars 63) =
     (0,
      Some \<lparr>in_position = True, buy_price = 63, quantity = 620000 / 61 / 63\<rparr>,
      [\<lparr>trade_action = Buy, trade_price = 61, trade_timestamp = 60, trade_profit_loss = None\<rparr>,
       \<lparr>trade_action = Sell, trade_price = 62, trade_timestamp = 61,
        trade_profit_loss = Some (10000 / 61)\<rparr>,
       \<lparr>trade_action = Buy, trade_price = 63, trade_timestamp = 62, trade_profit_loss = None\<rparr>])"
  by (simp add: simulate_trading_def upt_3 trading_step_def nth_ramp_bars)

lemma ramp_agent_facts:
  "trained ramp_agent" "model ramp_agent = Some first_close_model"
  by (simp_all add: ramp_agent_def const_agent_def)

lemma const_agent_facts:
  "trained (const_agent p r)" "model (const_agent p r) = Some (\<lambda>_. p)"
  by (simp_all add: const_agent_def)

lemma fit_id_scaler: "fit id_scaler X = Inr ()"
  by (simp add: id_scaler_def)

lemma evaluate_lookup:
  assumes "fit sc (features_of (sort_key timestamp td)) = Inr ps"
      and "trained ag" and "model ag = Some m" and "60 < length td"
      and "simulate_trading (backtest_labels sc ps m td) td = (bal, pos, trades)"
  shows "\<exists>pm. evaluate sc sk ag td = Inr (pm, ag\<lparr>performance_metrics := pm\<rparr>)
           \<and> map_of pm ''final_balance'' = Some (final_balance_of td bal pos)
           \<and> map_of pm ''profit_loss'' = Some (final_balance_of td bal pos - 10000)
           \<and> map_of pm ''win_rate'' =
               Some (if length (filter is_sell trades) > 0
                     then real (length (filter is_winning trades))
                            / real (length (filter is_sell trades))
                     else 0)
           \<and> map_of pm ''num_trades'' = Some (real (length (filter is_sell trades)))"
proof -
  from evaluate_long [OF assms, of sk] obtain acc prec rec f1 where
    "evaluate sc sk ag td =
       Inr ([(''accuracy'', acc), (''precision'', prec), (''recall'', rec), (''f1_score'', f1),
             (''profit_loss'', final_balance_of td bal pos - 10000),
             (''profit_loss_pct'', ((final_balance_of td bal pos - 10000) / 10000) * 100),
             (''win_rate'',
                if length (filter is_sell trades) > 0
                then real (length (filter is_winning trades))
                       / real (length (filter is_sell trades))
                else 0),
             (''num_trades'', real (length (filter is_sell trades))),
             (''final_balance'', final_balance_of td bal pos)],
            ag\<lparr>performance_metrics :=
               [(''accuracy'', acc), (''precision'', prec), (''recall'', rec), (''f1_score'', f1),
                (''profit_loss'', final_balance_of td bal pos - 10000),
                (''profit_loss_pct'', ((final_balance_of td bal pos - 10000) / 10000) * 100),
                (''win_rate'',
                   if length (filter is_sell trades) > 0
                   then real (length (filter is_winning trades))
                          / real (length (filter is_sell trades))
                   else 0),
                (''num_trades'', real (length (filter is_sell trades))),
                (''final_balance'', final_balance_of td bal pos)]\<rparr>)"
    by blast
  then show ?thesis by (intro exI conjI, assumption) simp_all
qed

text \<open>
  Claim C7. When the trading loop of \<^const>\<open>evaluate\<close> ends with a position still
  held, the reported \<^verbatim>\<open>final_balance\<close> is the held quantity times the close of the
  last row of the table, and \<^verbatim>\<open>profit_loss\<close> is that balance minus the initial
  balance 10000.
\<close>

theorem evaluate_forced_liquidation:
  assumes "fit sc (features_of (sort_key timestamp td)) = Inr ps"
      and "trained ag" and "model ag = Some m" and "60 < length td"
      and "simulate_trading (backtest_labels sc ps m td) td = (bal, Some p, trades)"
      and "in_position p"
  shows "\<exists>pm. evaluate sc sk ag td = Inr (pm, ag\<lparr>performance_metrics := pm\<rparr>)
           \<and> map_of pm ''final_balance'' = Some (quantity p * close (last td))
           \<and> map_of pm ''profit_loss'' = Some (quantity p * close (last td) - 10000)"
proof -
  have "final_balance_of td bal (Some p) = quantity p * close (last td)"
    using assms(6) by (simp add: final_balance_of_def)
  with evaluate_lookup [OF assms(1-5), of sk] show ?thesis by auto
qed

theorem evaluate_forced_liquidation_witness:
  "fit id_scaler (features_of (sort_key timestamp (ramp_bars 62))) = Inr ()
   \<and> trained (const_agent 0.9 0.5)
   \<and> model (const_agent 0.9 0.5) = Some (\<lambda>_. 0.9)
   \<and> 60 < length (ramp_bars 62)
   \<and> simulate_trading (backtest_labels id_scaler () (\<lambda>_. 0.9) (ramp_bars 62)) (ramp_bars 62)
       = (0, Some \<lparr>in_position = True, buy_price = 61, quantity = 10000 / 61\<rparr>,
          [\<lparr>trade_action = Buy, trade_price = 61, trade_timestamp = 60,
            trade_profit_loss = None\<rparr>])
   \<and> in_position \<lparr>in_position = True, buy_price = 61, quantity = 10000 / 61\<rparr>
   \<and> (\<exists>pm. evaluate id_scaler zero_scores (const_agent 0.9 0.5) (ramp_bars 62)
               = Inr (pm, (const_agent 0.9 0.5)\<lparr>performance_metrics := pm\<rparr>)
          \<and> map_of pm ''final_balance'' = Some (620000 / 61)
          \<and> map_of pm ''profit_loss'' = Some (10000 / 61))"
proof -
  let ?p = "\<lparr>in_position = True, buy_price = 61, quantity = 10000 / 61\<rparr>"
  have h1: "fit id_scaler (features_of (sort_key timestamp (ramp_bars 62))) = Inr ()"
    by (rule fit_id_scaler)
  have h2: "trained (const_agent 0.9 0.5)"
    and h3: "model (const_agent 0.9 0.5) = Some (\<lambda>_. 0.9)"
    by (simp_all add: const_agent_def)
  have h4: "60 < length (ramp_bars 62)" by (simp add: length_ramp_bars)
  have h5: "simulate_trading (backtest_labels id_scaler () (\<lambda>_. 0.9) (ramp_bars 62))
              (ramp_bars 62)
            = (0, Some ?p,
               [\<lparr>trade_action = Buy, trade_price = 61, trade_timestamp = 60,
                 trade_profit_loss = None\<rparr>])"
    by (simp only: backtest_labels_const simulate_ramp_buy_hold)
  have h6: "in_position ?p" by simp
  from evaluate_forced_liquidation [OF h1 h2 h3 h4 h5 h6, of zero_scores]
  have "\<exists>pm. evaluate id_scaler zero_scores (const_agent 0.9 0.5) (ramp_bars 62)
               = Inr (pm, (const_agent 0.9 0.5)\<lparr>performance_metrics := pm\<rparr>)
          \<and> map_of pm ''final_balance'' = Some (620000 / 61)
          \<and> map_of pm ''profit_loss'' = Some (10000 / 61)"
    by (simp add: close_last_ramp_bars)
  with h1 h2 h3 h4 h5 h6 show ?thesis by blast
qed

text \<open>
  Claim C8. \<^const>\<open>evaluate\<close> reports as \<^verbatim>\<open>num_trades\<close> the number of sell
  records of the ledger, and as \<^verbatim>\<open>win_rate\<close> the number of sell records with a
  positive profit divided by the number of sell records, or 0 when the ledger has no sell
  record; it returns a result in both cases.
\<close>

theorem evaluate_win_rate:
  assumes "fit sc (features_of (sort_key timestamp td)) = Inr ps"
      and "trained ag" and "model ag = Some m" and "60 < length td"
      and "simulate_trading (backtest_labels sc ps m td) td = (bal, pos, trades)"
      and "sells = filter (\<lambda>t. trade_action t = Sell) trades"
      and "wins = filter (\<lambda>t. trade_action t = Sell
                               \<and> (case trade_profit_loss t of
                                      None \<Rightarrow> False
                                    | Some v \<Rightarrow> v > 0)) trades"
  shows "\<exists>pm. evaluate sc sk ag td = Inr (pm, ag\<lparr>performance_metrics := pm\<rparr>)
           \<and> map_of pm ''num_trades'' = Some (real (length sells))
           \<and> (sells \<noteq> [] \<longrightarrow>
                 map_of pm ''win_rate'' = Some (real (length wins) / real (length sells)))
           \<and> (sells = [] \<longrightarrow> map_of pm ''win_rate'' = Some 0)"
proof -
  have s: "filter is_sell trades = sells"
    unfolding assms(6) by (rule filter_cong) (simp_all add: is_sell_def)
  have w: "filter is_winning trades = wins"
    unfolding assms(7)
    by (rule filter_cong) (auto simp: is_winning_def split: option.splits)
  from evaluate_lookup [OF assms(1-5), of sk] show ?thesis
    unfolding s w by auto
qed

theorem evaluate_win_rate_witness:
  "fit id_scaler (features_of (sort_key timestamp (ramp_bars 62))) = Inr ()
   \<and> trained ramp_agent
   \<and> model ramp_agent = Some first_close_model
   \<and> 60 < length (ramp_bars 62)
   \<and> simulate_trading (backtest_labels id_scaler () first_close_model (ramp_bars 62))
        (ramp_bars 62)
       = (620000 / 61,
          Some \<lparr>in_position = False, buy_price = 61, quantity = 10000 / 61\<rparr>,
          [\<lparr>trade_action = Buy, trade_price = 61, trade_timestamp = 60,
            trade_profit_loss = None\<rparr>,
           \<lparr>trade_action = Sell, trade_price = 62, trade_timestamp = 61,
            trade_profit_loss = Some (10000 / 61)\<rparr>])
   \<and> (\<exists>pm. evaluate id_scaler zero_scores ramp_agent (ramp_bars 62)
               = Inr (pm, ramp_agent\<lparr>performance_metrics := pm\<rparr>)
          \<and> map_of pm ''num_trades'' = Some 1
          \<and> map_of pm ''win_rate'' = Some 1)"
proof -
  let ?buy = "\<lparr>trade_action = Buy, trade_price = 61, trade_timestamp = 60,
               trade_profit_loss = None\<rparr>"
  let ?sell = "\<lparr>trade_action = Sell, trade_price = 62, trade_timestamp = 61,
                trade_profit_loss = Some (10000 / 61)\<rparr>"
  have h1: "fit id_scaler (features_of (sort_key timestamp (ramp_bars 62))) = Inr ()"
    by (rule fit_id_scaler)
  have h2: "trained ramp_agent" and h3: "model ramp_agent = Some first_close_model"
    by (rule ramp_agent_facts)+
  have h4: "60 < length (ramp_bars 62)" by (simp add: length_ramp_bars)
  have h5: "simulate_trading (backtest_labels id_scaler () first_close_model (ramp_bars 62))
              (ramp_bars 62)
            = (620000 / 61,
               Some \<lparr>in_position = False, buy_price = 61, quantity = 10000 / 61\<rparr>,
               [?buy, ?sell])"
    by (simp only: backtest_labels_ramp simulate_ramp_buy_sell)
  have h6: "[?sell] = filter (\<lambda>t. trade_action t = Sell) [?buy, ?sell]" by simp
  have h7: "[?sell] = filter (\<lambda>t. trade_action t = Sell
                               \<and> (case trade_profit_loss t of
                                      None \<Rightarrow> False
                                    | Some v \<Rightarrow> v > 0)) [?buy, ?sell]"
    by simp
  from evaluate_win_rate [OF h1 h2 h3 h4 h5 h6 h7, of zero_scores]
  have "\<exists>pm. evaluate id_scaler zero_scores ramp_agent (ramp_bars 62)
               = Inr (pm, ramp_agent\<lparr>performance_metrics := pm\<rparr>)
          \<and> map_of pm ''num_trades'' = Some 1
          \<and> map_of pm ''win_rate'' = Some 1"
    by simp
  with h1 h2 h3 h4 h5 show ?thesis by blast
qed

text \<open>
  Claim C10. In the ledger of a run of the trading loop the first record, if any, is a
  buy, two consecutive records never have the same action, every record is a buy or a
  sell, and the number of buys is the number of sells or one more.
\<close>

theorem simulate_trading_alternates:
  assumes "simulate_trading y_pred td = (bal, pos, trades)"
  shows "(trades \<noteq> [] \<longrightarrow> trade_action (hd trades) = Buy)
       \<and> (\<forall>j. Suc j < length trades \<longrightarrow>
              trade_action (trades ! j) \<noteq> trade_action (trades ! Suc j))
       \<and> (\<forall>t \<in> set trades. trade_action t = Buy \<or> trade_action t = Sell)
       \<and> (length (filter (\<lambda>t. trade_action t = Buy) trades)
            = length (filter (\<lambda>t. trade_action t = Sell) trades)
          \<or> length (filter (\<lambda>t. trade_action t = Buy) trades)
            = length (filter (\<lambda>t. trade_action t = Sell) trades) + 1)"
proof -
  let ?acts = "map trade_action trades"
  have "ledger_inv (bal, pos, trades)"
    using simulate_trading_inv [of y_pred td] assms by simp
  then have alt: "alternating ?acts" by (simp add: ledger_inv_def)
  then have nth: "\<And>j. j < length trades \<Longrightarrow>
      trade_action (trades ! j) = (if even j then Buy else Sell)"
    by (auto simp: alternating_def)
  have first: "trades \<noteq> [] \<longrightarrow> trade_action (hd trades) = Buy"
    using nth [of 0] by (auto simp: hd_conv_nth)
  have adj: "\<forall>j. Suc j < length trades \<longrightarrow>
              trade_action (trades ! j) \<noteq> trade_action (trades ! Suc j)"
    using nth by auto
  have mem: "\<forall>t \<in> set trades. trade_action t = Buy \<or> trade_action t = Sell"
  proof
    fix t assume "t \<in> set trades"
    then obtain j where "j < length trades" and "t = trades ! j"
      by (auto simp: in_set_conv_nth)
    with nth [of j] show "trade_action t = Buy \<or> trade_action t = Sell"
      by (cases "even j") simp_all
  qed
  have cnt: "length (filter (\<lambda>a. a = Buy) ?acts) = (length trades + 1) div 2"
            "length (filter (\<lambda>a. a = Sell) ?acts) = length trades div 2"
    using alternating_count [OF alt] by simp_all
  have fm: "\<And>a. length (filter (\<lambda>t. trade_action t = a) trades)
                  = length (filter (\<lambda>x. x = a) ?acts)"
    by (simp add: filter_map comp_def)
  have "length (filter (\<lambda>t. trade_action t = Buy) trades)
            = length (filter (\<lambda>t. trade_action t = Sell) trades)
          \<or> length (filter (\<lambda>t. trade_action t = Buy) trades)
            = length (filter (\<lambda>t. trade_action t = Sell) trades) + 1"
    unfolding fm cnt by presburger
  with first adj mem show ?thesis by blast
qed

theorem simulate_trading_alternates_witness:
  "simulate_trading [1, 0, 1] (ramp_bars 63) =
     (0, Some \<lparr>in_position = True, buy_price = 63, quantity = 620000 / 61 / 63\<rparr>, ramp_ledger)
   \<and> trade_action (hd ramp_ledger) = Buy
   \<and> length (filter (\<lambda>t. trade_action t = Buy) ramp_ledger)
       = length (filter (\<lambda>t. trade_action t = Sell) ramp_ledger) + 1"
proof -
  have h: "simulate_trading [1, 0, 1] (ramp_bars 63) =
     (0, Some \<lparr>in_position = True, buy_price = 63, quantity = 620000 / 61 / 63\<rparr>, ramp_ledger)"
    unfolding ramp_ledger_def by (rule simulate_ramp_three)
  have ne: "ramp_ledger \<noteq> []" by (simp add: ramp_ledger_def)
  have odd: "length (filter (\<lambda>t. trade_action t = Buy) ramp_ledger)
               \<noteq> length (filter (\<lambda>t. trade_action t = Sell) ramp_ledger)"
    by (simp add: ramp_ledger_def)
  from simulate_trading_alternates [OF h] ne odd
  have "trade_action (hd ramp_ledger) = Buy
        \<and> length (filter (\<lambda>t. trade_action t = Buy) ramp_ledger)
            = length (filter (\<lambda>t. trade_action t = Sell) ramp_ledger) + 1"
    by blast
  with h show ?thesis by blast
qed

section \<open>Serialising and deserialising the agent\<close>

text \<open>
  Every agent the constructor builds has a non-empty id (the clock string is a number),
  and \<^const>\<open>load_model\<close> keeps the id unless it is given a non-empty one.
\<close>

lemma init_agent_id_nonempty:
  "now \<noteq> [] \<Longrightarrow> agent_id (init now a n s r md) \<noteq> []"
  by (simp add: init_def split: option.splits)

lemma save_model_in_sync:
  assumes "model ag = Some m"
  shows "stored_in_sync (snd (save_model dk now ag)) ag"
  using assms by (simp add: save_model_def stored_in_sync_def)

lemma load_model_in_sync:
  assumes "load_model dk ag0 None = (True, ag)"
  shows "stored_in_sync dk ag"
proof (cases "model_file (dk (agent_id ag0))")
  case None
  with assms show ?thesis by (simp add: load_model_def)
next
  case (Some m)
  show ?thesis
  proof (cases "metadata_file (dk (agent_id ag0))")
    case None
    with Some assms have "agent_id ag = agent_id ag0"
      by (auto simp: load_model_def Let_def)
    with None show ?thesis by (simp add: stored_in_sync_def)
  next
    case md: (Some md)
    with Some assms have
      "agent_id ag = agent_id ag0"
      "name ag = (case s_name md of None \<Rightarrow> name ag0 | Some v \<Rightarrow> v)"
      "strategy_type ag = (case s_strategy_type md of None \<Rightarrow> strategy_type ag0 | Some v \<Rightarrow> v)"
      "risk_level ag = (case s_risk_level md of None \<Rightarrow> risk_level ag0 | Some v \<Rightarrow> v)"
      "trained ag = (case s_trained md of None \<Rightarrow> False | Some v \<Rightarrow> v)"
      "performance_metrics ag
         = (case s_performance_metrics md of None \<Rightarrow> performance_metrics ag0 | Some v \<Rightarrow> v)"
      "metadata ag = (case s_metadata md of None \<Rightarrow> [] | Some v \<Rightarrow> v)"
      by (auto simp: load_model_def Let_def split: option.split)
    with md show ?thesis
      by (simp add: stored_in_sync_def split: option.split)
  qed
qed

lemma from_dict_to_dict_untrained:
  assumes "agent_id ag \<noteq> []" and "\<not> trained ag"
  shows "from_dict dk now (to_dict ag) = ag\<lparr>model := None\<rparr>"
  using assms by (simp add: from_dict_def to_dict_def init_def)

lemma from_dict_to_dict_no_model:
  assumes "agent_id ag \<noteq> []" and "trained ag" and "model_file (dk (agent_id ag)) = None"
  shows "from_dict dk now (to_dict ag) = ag\<lparr>model := None\<rparr>"
  using assms by (simp add: from_dict_def to_dict_def init_def load_model_def)

lemma from_dict_to_dict_no_metadata:
  assumes "agent_id ag \<noteq> []" and "trained ag" and "model_file (dk (agent_id ag)) = Some m"
      and "metadata_file (dk (agent_id ag)) = None"
  shows "from_dict dk now (to_dict ag) = ag\<lparr>model := Some m\<rparr>"
  using assms by (simp add: from_dict_def to_dict_def init_def load_model_def)

lemma from_dict_to_dict_loaded:
  assumes "agent_id ag \<noteq> []" and "trained ag" and "model_file (dk (agent_id ag)) = Some m"
      and "metadata_file (dk (agent_id ag)) = Some md"
  shows "agent_id (from_dict dk now (to_dict ag)) = agent_id ag"
    and "name (from_dict dk now (to_dict ag))
           = (case s_name md of None \<Rightarrow> name ag | Some v \<Rightarrow> v)"
    and "strategy_type (from_dict dk now (to_dict ag))
           = (case s_strategy_type md of None \<Rightarrow> strategy_type ag | Some v \<Rightarrow> v)"
    and "risk_level (from_dict dk now (to_dict ag))
           = (case s_risk_level md of None \<Rightarrow> risk_level ag | Some v \<Rightarrow> v)"
    and "trained (from_dict dk now (to_dict ag))
           = (case s_trained md of None \<Rightarrow> False | Some v \<Rightarrow> v)"
    and "performance_metrics (from_dict dk now (to_dict ag))
           = (case s_performance_metrics md of None \<Rightarrow> performance_metrics ag | Some v \<Rightarrow> v)"
    and "metadata (from_dict dk now (to_dict ag))
           = (case s_metadata md of None \<Rightarrow> [] | Some v \<Rightarrow> v)"
  using assms
  by (simp_all add: from_dict_def to_dict_def init_def load_model_def Let_def
        split: option.split)

text \<open>
  Claim C9, amended. For an agent with a non-empty id, \<^const>\<open>from_dict\<close> applied to
  \<^const>\<open>to_dict\<close> gives an agent with the same id, name, strategy type, risk level,
  trained flag, performance metrics and metadata exactly when the agent is untrained, or
  its model directory holds no model file, or the stored metadata agrees with the agent
  (\<^const>\<open>stored_in_sync\<close>, which includes the case of no metadata file). An agent
  just saved or just loaded is in that last case.
\<close>

theorem from_dict_to_dict:
  assumes "agent_id ag \<noteq> []"
  shows "(agent_id (from_dict dk now (to_dict ag)) = agent_id ag
          \<and> name (from_dict dk now (to_dict ag)) = name ag
          \<and> strategy_type (from_dict dk now (to_dict ag)) = strategy_type ag
          \<and> risk_level (from_dict dk now (to_dict ag)) = risk_level ag
          \<and> trained (from_dict dk now (to_dict ag)) = trained ag
          \<and> performance_metrics (from_dict dk now (to_dict ag)) = performance_metrics ag
          \<and> metadata (from_dict dk now (to_dict ag)) = metadata ag)
         \<longleftrightarrow> (\<not> trained ag \<or> model_file (dk (agent_id ag)) = None \<or> stored_in_sync dk ag)"
proof (cases "trained ag")
  case False
  with from_dict_to_dict_untrained [where dk = dk and now = now, OF assms False] show ?thesis by simp
next
  case True
  show ?thesis
  proof (cases "model_file (dk (agent_id ag))")
    case None
    with from_dict_to_dict_no_model [where dk = dk and now = now, OF assms True None] show ?thesis by simp
  next
    case (Some m)
    show ?thesis
    proof (cases "metadata_file (dk (agent_id ag))")
      case None
      with from_dict_to_dict_no_metadata [where dk = dk and now = now, OF assms True Some None] show ?thesis
        by (simp add: stored_in_sync_def)
    next
      case md: (Some md)
      show ?thesis
        using True Some md
        by (simp add: stored_in_sync_def
              from_dict_to_dict_loaded [where dk = dk and now = now, OF assms True Some md])
    qed
  qed
qed

lemma evaluate_zero_scores:
  assumes "fit sc (features_of (sort_key timestamp td)) = Inr ps"
      and "trained ag" and "model ag = Some m" and "60 < length td"
      and "simulate_trading (backtest_labels sc ps m td) td = (bal, pos, trades)"
  shows "evaluate sc zero_scores ag td =
       Inr ([(''accuracy'', 0), (''precision'', 0), (''recall'', 0), (''f1_score'', 0),
             (''profit_loss'', final_balance_of td bal pos - 10000),
             (''profit_loss_pct'', ((final_balance_of td bal pos - 10000) / 10000) * 100),
             (''win_rate'',
                if length (filter is_sell trades) > 0
                then real (length (filter is_winning trades))
                       / real (length (filter is_sell trades))
                else 0),
             (''num_trades'', real (length (filter is_sell trades))),
             (''final_balance'', final_balance_of td bal pos)],
            ag\<lparr>performance_metrics :=
               [(''accuracy'', 0), (''precision'', 0), (''recall'', 0), (''f1_score'', 0),
                (''profit_loss'', final_balance_of td bal pos - 10000),
                (''profit_loss_pct'', ((final_balance_of td bal pos - 10000) / 10000) * 100),
                (''win_rate'',
                   if length (filter is_sell trades) > 0
                   then real (length (filter is_winning trades))
                          / real (length (filter is_sell trades))
                   else 0),
                (''num_trades'', real (length (filter is_sell trades))),
                (''final_balance'', final_balance_of td bal pos)]\<rparr>)"
proof -
  have ne: "length td - 60 \<noteq> 0" using assms(4) by simp
  show ?thesis
    using assms(2,3,5) ne
    by (simp add: evaluate_def preprocess_data_windows_eq [OF assms(1)] Let_def
          backtest_labels_def final_balance_of_def zero_scores_def)
qed

lemma saved_agent_facts:
  "agent_id saved_agent = ''a1''" "trained saved_agent"
  "model saved_agent = Some first_close_model"
  by (simp_all add: saved_agent_def)

lemma evaluated_agent_eq:
  "evaluated_agent =
     saved_agent\<lparr>performance_metrics :=
       [(''accuracy'', 0), (''precision'', 0), (''recall'', 0), (''f1_score'', 0),
        (''profit_loss'', 10000 / 61), (''profit_loss_pct'', 100 / 61),
        (''win_rate'', 1), (''num_trades'', 1), (''final_balance'', 620000 / 61)]\<rparr>"
proof -
  have sim: "simulate_trading (backtest_labels id_scaler () first_close_model (ramp_bars 62))
               (ramp_bars 62)
             = (620000 / 61,
                Some \<lparr>in_position = False, buy_price = 61, quantity = 10000 / 61\<rparr>,
                [\<lparr>trade_action = Buy, trade_price = 61, trade_timestamp = 60,
                  trade_profit_loss = None\<rparr>,
                 \<lparr>trade_action = Sell, trade_price = 62, trade_timestamp = 61,
                  trade_profit_loss = Some (10000 / 61)\<rparr>])"
    by (simp only: backtest_labels_ramp simulate_ramp_buy_sell)
  have len: "60 < length (ramp_bars 62)" by (simp add: length_ramp_bars)
  show ?thesis
    unfolding evaluated_agent_def
      evaluate_zero_scores [OF fit_id_scaler saved_agent_facts(2,3) len sim]
    by (simp add: final_balance_of_def is_sell_def is_winning_def)
qed

lemma saved_disk_a1:
  "saved_disk ''a1'' =
     \<lparr>model_file = Some first_close_model,
      metadata_file =
        Some \<lparr>s_agent_id = Some ''a1'', s_name = Some ''Momentum'',
              s_strategy_type = Some ''lstm'', s_risk_level = Some 0.5,
              s_trained = Some True,
              s_performance_metrics =
                Some [(''accuracy'', 0.8), (''profit_loss'', 0), (''win_rate'', 0),
                      (''sharpe_ratio'', 0)],
              s_created_at = Some ''2023-11-14T22:13:20'',
              s_metadata =
                Some [(''owner'', JStr ''desk''), (''limits'', JDict [(''max'', JNum 2.5)]),
                      (''live'', JBool False)]\<rparr>\<rparr>"
  by (simp add: saved_disk_def save_model_def saved_agent_def)

text \<open>
  Claim C9, as stated, does not hold. \<^const>\<open>from_dict\<close> reloads a trained agent
  from its model directory, and the stored metadata replaces what the dictionary said. A
  trained agent that was saved and then evaluated carries the metrics of the evaluation;
  after the round trip it has the stored ones.
\<close>

theorem from_dict_to_dict_counterexample:
  "performance_metrics evaluated_agent =
     [(''accuracy'', 0), (''precision'', 0), (''recall'', 0), (''f1_score'', 0),
      (''profit_loss'', 10000 / 61), (''profit_loss_pct'', 100 / 61),
      (''win_rate'', 1), (''num_trades'', 1), (''final_balance'', 620000 / 61)]
   \<and> performance_metrics (from_dict saved_disk ''1700000100'' (to_dict evaluated_agent)) =
       [(''accuracy'', 0.8), (''profit_loss'', 0), (''win_rate'', 0), (''sharpe_ratio'', 0)]"
  by (simp add: evaluated_agent_eq saved_agent_def saved_disk_a1 from_dict_def to_dict_def
        init_def load_model_def)

theorem from_dict_to_dict_witness:
  "agent_id saved_agent \<noteq> []
   \<and> trained saved_agent
   \<and> model_file (saved_disk (agent_id saved_agent)) = Some first_close_model
   \<and> stored_in_sync saved_disk saved_agent
   \<and> agent_id (from_dict saved_disk ''1700000100'' (to_dict saved_agent)) = ''a1''
   \<and> name (from_dict saved_disk ''1700000100'' (to_dict saved_agent)) = ''Momentum''
   \<and> strategy_type (from_dict saved_disk ''1700000100'' (to_dict saved_agent)) = ''lstm''
   \<and> risk_level (from_dict saved_disk ''1700000100'' (to_dict saved_agent)) = 0.5
   \<and> trained (from_dict saved_disk ''1700000100'' (to_dict saved_agent)) = True
   \<and> performance_metrics (from_dict saved_disk ''1700000100'' (to_dict saved_agent)) =
       [(''accuracy'', 0.8), (''profit_loss'', 0), (''win_rate'', 0), (''sharpe_ratio'', 0)]
   \<and> metadata (from_dict saved_disk ''1700000100'' (to_dict saved_agent)) =
       [(''owner'', JStr ''desk''), (''limits'', JDict [(''max'', JNum 2.5)]),
        (''live'', JBool False)]"
proof -
  have h1: "agent_id saved_agent \<noteq> []" by (simp add: saved_agent_def)
  have t: "trained saved_agent" by (rule saved_agent_facts)
  have mf: "model_file (saved_disk (agent_id saved_agent)) = Some first_close_model"
    by (simp add: saved_agent_facts saved_disk_a1)
  have sync: "stored_in_sync saved_disk saved_agent"
    unfolding saved_disk_def by (rule save_model_in_sync [OF saved_agent_facts(3)])
  have f: "agent_id saved_agent = ''a1''" "name saved_agent = ''Momentum''"
    "strategy_type saved_agent = ''lstm''" "risk_level saved_agent = 0.5"
    "trained saved_agent = True"
    "performance_metrics saved_agent =
       [(''accuracy'', 0.8), (''profit_loss'', 0), (''win_rate'', 0), (''sharpe_ratio'', 0)]"
    "metadata saved_agent =
       [(''owner'', JStr ''desk''), (''limits'', JDict [(''max'', JNum 2.5)]),
        (''live'', JBool False)]"
    by (simp_all add: saved_agent_def)
  from sync have "\<not> trained saved_agent
      \<or> model_file (saved_disk (agent_id saved_agent)) = None
      \<or> stored_in_sync saved_disk saved_agent" by simp
  with from_dict_to_dict [where ag = saved_agent and dk = saved_disk
      and now = "''1700000100''", OF h1]
  have "agent_id (from_dict saved_disk ''1700000100'' (to_dict saved_agent)) = agent_id saved_agent
      \<and> name (from_dict saved_disk ''1700000100'' (to_dict saved_agent)) = name saved_agent
      \<and> strategy_type (from_dict saved_disk ''1700000100'' (to_dict saved_agent))
          = strategy_type saved_agent
      \<and> risk_level (from_dict saved_disk ''1700000100'' (to_dict saved_agent))
          = risk_level saved_agent
      \<and> trained (from_dict saved_disk ''1700000100'' (to_dict saved_agent)) = trained saved_agent
      \<and> performance_metrics (from_dict saved_disk ''1700000100'' (to_dict saved_agent))
          = performance_metrics saved_agent
      \<and> metadata (from_dict saved_disk ''1700000100'' (to_dict saved_agent))
          = metadata saved_agent"
    by (rule iffD2)
  then have
    "agent_id (from_dict saved_disk ''1700000100'' (to_dict saved_agent)) = ''a1''
     \<and> name (from_dict saved_disk ''1700000100'' (to_dict saved_agent)) = ''Momentum''
     \<and> strategy_type (from_dict saved_disk ''1700000100'' (to_dict saved_agent)) = ''lstm''
     \<and> risk_level (from_dict saved_disk ''1700000100'' (to_dict saved_agent)) = 0.5
     \<and> trained (from_dict saved_disk ''1700000100'' (to_dict saved_agent)) = True
     \<and> performance_metrics (from_dict saved_disk ''1700000100'' (to_dict saved_agent)) =
         [(''accuracy'', 0.8), (''profit_loss'', 0), (''win_rate'', 0), (''sharpe_ratio'', 0)]
     \<and> metadata (from_dict saved_disk ''1700000100'' (to_dict saved_agent)) =
         [(''owner'', JStr ''desk''), (''limits'', JDict [(''max'', JNum 2.5)]),
          (''live'', JBool False)]"
    by (simp only: f)
  with h1 t mf sync show ?thesis by blast
qed

end
